theory Spec2Isabelle
  imports Main "HOL-Library.Word"
begin

unbundle bit_operations_syntax

chapter \<open>The zone lifecycle core of knot: a shallow embedding\<close>

text \<open>
  The definitions follow \<^verbatim>\<open>src/knot/server/zones.c\<close> and
  \<^verbatim>\<open>src/dnslib/zone-dump.c\<close>.  C integers of a fixed width are words
  (\<open>uint32_t\<close> is \<open>32 word\<close>, \<open>uint64_t\<close> is \<open>64 word\<close>), so \<open>+\<close>, \<open>-\<close> and
  \<open>*\<close> wrap as they do in C.  A pointer that may be \<open>NULL\<close> is an \<open>option\<close>.
  An \<open>assert\<close> that fails and a \<open>NULL\<close> dereference are values of the type
  \<open>failure\<close>.  Return codes of the \<open>KNOT_E*\<close> family are the datatype
  \<open>knot_error\<close>.
\<close>

section \<open>Common types\<close>

datatype failure = AssertFailed | NullDeref

datatype knot_error =
    KNOT_EOK | KNOT_EINVAL | KNOT_ENOMEM | KNOT_EBUSY | KNOT_ERANGE
  | KNOT_ERROR | KNOT_EWRITABLE | KNOT_EACCES | KNOT_ENOENT | KNOT_EMALF

section \<open>Journal keys (zones.c, ixfrdb_key_*)\<close>

text \<open>
  \<^verbatim>\<open>return (uint32_t)(k & ((uint64_t)0x00000000ffffffff));\<close>
\<close>

definition ixfrdb_key_from :: "64 word \<Rightarrow> 32 word" where
  "ixfrdb_key_from k = ucast (k AND 0x00000000ffffffff)"

text \<open>
  \<^verbatim>\<open>return (uint32_t)(k >> (uint64_t)32);\<close>
\<close>

definition ixfrdb_key_to :: "64 word \<Rightarrow> 32 word" where
  "ixfrdb_key_to k = ucast (drop_bit 32 k)"

text \<open>
  \<^verbatim>\<open>static inline int ixfrdb_key_to_cmp(uint64_t k, uint64_t to)
  { return ((uint64_t)ixfrdb_key_to(k)) - to; }\<close>
  The subtraction is done on 64 bits and the result is converted to \<open>int\<close>
  (32 bits): the low 32 bits are kept and read as two's complement, which is what
  every mainstream C compiler does for this implementation-defined conversion.
\<close>

definition ixfrdb_key_to_cmp :: "64 word \<Rightarrow> 64 word \<Rightarrow> int" where
  "ixfrdb_key_to_cmp k to =
     sint (ucast ((ucast (ixfrdb_key_to k) :: 64 word) - to) :: 32 word)"

definition ixfrdb_key_from_cmp :: "64 word \<Rightarrow> 64 word \<Rightarrow> int" where
  "ixfrdb_key_from_cmp k from =
     sint (ucast ((ucast (ixfrdb_key_from k) :: 64 word) - from) :: 32 word)"

text \<open>
  \<^verbatim>\<open>return (((uint64_t)to) << ((uint64_t)32)) | ((uint64_t)from);\<close>
\<close>

definition ixfrdb_key_make :: "32 word \<Rightarrow> 32 word \<Rightarrow> 64 word" where
  "ixfrdb_key_make from to = push_bit 32 (ucast to) OR ucast from"

section \<open>Zones, contents and SOA timers (zones.c, zones_soa_timer)\<close>

text \<open>
  The four numeric SOA fields the code reads.  \<open>knot_rdata_soa_refresh\<close>,
  \<open>knot_rdata_soa_retry\<close>, \<open>knot_rdata_soa_expire\<close> and \<open>knot_rdata_soa_serial\<close>
  are libknot accessors, each returning one \<open>uint32_t\<close> field of the RDATA; they are the
  selectors of the record.
\<close>

record soa_rdata =
  knot_rdata_soa_serial :: "32 word"
  knot_rdata_soa_refresh :: "32 word"
  knot_rdata_soa_retry :: "32 word"
  knot_rdata_soa_expire :: "32 word"

text \<open>
  \<open>knot_zone_contents_t\<close>: of a snapshot only the SOA RRSet of the apex is read in
  the functions modelled here.  Every snapshot has one (the code asserts
  \<open>soa_rrs != NULL\<close> wherever it fetches it), so the field is not optional and
  those assertions hold by the type.
\<close>

record knot_zone_contents =
  apex_soa :: soa_rdata

text \<open>
  \<open>journal_node_t\<close> and \<open>journal_t\<close> are declared in journal.h, which is not among
  the sources.  A node has a 64-bit key and 16 bits of flags; of the journal the model
  keeps its nodes, its reference count and whether the journal is in use.
\<close>

record journal_node =
  node_id :: "64 word"
  flags :: "16 word"

record journal_t =
  nodes :: "journal_node list"
  refs :: nat
  is_used :: bool

text \<open>
  Modelled from the spec: the flag constants of journal.h are not among the sources.
  The spec names the flags VALID, DIRTY and TRANS; they are three distinct bits.
\<close>

definition JOURNAL_VALID :: "16 word" where "JOURNAL_VALID = 2"
definition JOURNAL_DIRTY :: "16 word" where "JOURNAL_DIRTY = 4"
definition JOURNAL_TRANS :: "16 word" where "JOURNAL_TRANS = 8"

text \<open>
  \<open>zone->conf->serial_policy\<close> is an \<open>int\<close>; the code switches on the two named
  values and asserts on every other one.
\<close>

datatype serial_policy =
  CONF_SERIAL_INCREMENT | CONF_SERIAL_UNIXTIME | CONF_SERIAL_OTHER int

text \<open>The fields of \<open>zone_t\<close> (and of its \<open>conf\<close>) that the modelled functions use.\<close>

record zone_t =
  contents :: "knot_zone_contents option"
  zonefile_serial :: "32 word"
  zonefile_mtime :: int
  ixfr_db :: "journal_t option"
  conf_serial_policy :: serial_policy
  conf_dbsync_timeout :: int
  dnssec_timer_sec :: int

text \<open>
  \<^verbatim>\<open>static uint32_t zones_soa_timer(zone_t *zone, uint32_t (*rr_func)(const knot_rrset_t*))\<close>

  A \<open>NULL\<close> zone is only reported by a debug message; the next statement reads
  \<open>zone->contents\<close>, which is the failure \<open>NullDeref\<close>.  The result is
  \<open>ret * 1000\<close> on \<open>uint32_t\<close>.
\<close>

definition zones_soa_timer ::
  "zone_t option \<Rightarrow> (soa_rdata \<Rightarrow> 32 word) \<Rightarrow> failure + 32 word" where
  "zones_soa_timer zone rr_func =
     (case zone of
        None \<Rightarrow> Inl NullDeref
      | Some z \<Rightarrow>
          (case contents z of
             None \<Rightarrow> Inr 0
           | Some zc \<Rightarrow>
               (let soa_rrs = apex_soa zc;
                    ret = rr_func soa_rrs
                in Inr (ret * 1000))))"

definition zones_soa_refresh :: "zone_t option \<Rightarrow> failure + 32 word" where
  "zones_soa_refresh zone = zones_soa_timer zone knot_rdata_soa_refresh"

definition zones_soa_retry :: "zone_t option \<Rightarrow> failure + 32 word" where
  "zones_soa_retry zone = zones_soa_timer zone knot_rdata_soa_retry"

definition zones_soa_expire :: "zone_t option \<Rightarrow> failure + 32 word" where
  "zones_soa_expire zone = zones_soa_timer zone knot_rdata_soa_expire"

section \<open>The next serial (zones.c, zones_next_serial)\<close>

text \<open>
  What the modelled functions write to the log or hand to the scheduler, and the ghost
  marks that count calls.
\<close>

datatype event =
    LogSerialWarning "32 word" "32 word"
  | EvTryStore knot_error
  | EvSyncFromEv knot_error
  | EvZonefileWritten
  | EvRollbackUpdate
  | EvScheduleSync
  | EvRcodeNoError
  | LogSignatureLifetimeWarning

text \<open>
  Two libknot functions that \<open>zones_next_serial\<close> calls are not among the sources;
  the function takes them as parameters.  \<open>knot_zone_serial\<close> reads the serial of a
  snapshot, \<open>ns_serial_compare\<close> compares two serials (negative, zero or positive).
\<close>

record libknot =
  knot_zone_serial :: "knot_zone_contents option \<Rightarrow> 32 word"
  ns_serial_compare :: "32 word \<Rightarrow> 32 word \<Rightarrow> int"

text \<open>
  \<^verbatim>\<open>case CONF_SERIAL_INCREMENT: new_serial = (uint32_t)old_serial + 1;
  case CONF_SERIAL_UNIXTIME:  new_serial = (uint32_t)time(NULL);
  default: assert(0);\<close>
  \<open>now\<close> is the value of \<open>time(NULL)\<close>, a \<open>time_t\<close>; the cast keeps its low 32
  bits.  The result is the new serial and what was logged.  With a policy outside the
  two cases the assertion fails (and without assertions \<open>new_serial\<close> is read
  uninitialised): a failure either way.
\<close>

definition zones_next_serial ::
  "libknot \<Rightarrow> zone_t option \<Rightarrow> int \<Rightarrow> failure + (32 word \<times> event list)" where
  "zones_next_serial lib zone now =
     (case zone of
        None \<Rightarrow> Inl AssertFailed
      | Some z \<Rightarrow>
          (let old_serial = knot_zone_serial lib (contents z) in
           case (case conf_serial_policy z of
                   CONF_SERIAL_INCREMENT \<Rightarrow> Some (old_serial + 1)
                 | CONF_SERIAL_UNIXTIME \<Rightarrow> Some (word_of_int now)
                 | CONF_SERIAL_OTHER _ \<Rightarrow> None) of
             None \<Rightarrow> Inl AssertFailed
           | Some new_serial \<Rightarrow>
               Inr (new_serial,
                    if ns_serial_compare lib old_serial new_serial \<ge> 0
                    then [LogSerialWarning old_serial new_serial] else [])))"

text \<open>
  Modelled from the spec: \<open>knot_zone_serial\<close> and \<open>ns_serial_compare\<close> are not
  among the sources.  The serial of a snapshot is the serial of its apex SOA (0 without
  a snapshot); the comparison is the one of RFC 1982 on 32 bits: \<open>s1\<close> is greater
  than \<open>s2\<close> when it is ahead of \<open>s2\<close> by less than \<open>2^31\<close> modulo \<open>2^32\<close>,
  that is, when the wrapped difference \<open>s1 - s2\<close> is positive as a signed number.
\<close>

definition rfc1982_compare :: "32 word \<Rightarrow> 32 word \<Rightarrow> int" where
  "rfc1982_compare s1 s2 =
     (if s1 = s2 then 0
      else if 0 < sint (s1 - s2) then 1
      else - 1)"

definition libknot_model :: libknot where
  "libknot_model =
     \<lparr> knot_zone_serial =
         (\<lambda>zc. case zc of None \<Rightarrow> 0 | Some c \<Rightarrow> knot_rdata_soa_serial (apex_soa c)),
       ns_serial_compare = rfc1982_compare \<rparr>"

text \<open>
  The new serial is strictly greater than the old one, in the sense of the comparison
  the code uses, when \<open>ns_serial_compare(old, new) < 0\<close>.
\<close>

definition serial_strictly_greater :: "libknot \<Rightarrow> 32 word \<Rightarrow> 32 word \<Rightarrow> bool" where
  "serial_strictly_greater lib new old = (ns_serial_compare lib old new < 0)"

section \<open>The world: zone, environment and trace\<close>

text \<open>
  The functions below call into code that is not among the sources (the journal, the
  text dump, the file system, the DNSSEC signer, the content switch).  Whether such a
  call succeeds is decided by the environment: \<open>script\<close> lists the results of the
  fallible external calls in the order in which they are made (\<open>KNOT_EOK\<close> once the
  list is used up).  \<open>events\<close> is the trace: log lines and scheduler requests of the
  code, and ghost marks for the calls the properties count.  \<open>clock\<close> is the
  current time in seconds: what \<open>time(NULL)\<close> returns, and the modification time
  \<open>stat\<close> reports for a zonefile just written.
\<close>

record world =
  zone :: zone_t
  script :: "knot_error list"
  events :: "event list"
  clock :: int

definition env_next :: "world \<Rightarrow> knot_error \<times> world" where
  "env_next w = (case script w of [] \<Rightarrow> (KNOT_EOK, w) | r # rs \<Rightarrow> (r, w\<lparr>script := rs\<rparr>))"

definition log_event :: "event \<Rightarrow> world \<Rightarrow> world" where
  "log_event e w = w\<lparr>events := events w @ [e]\<rparr>"

definition upd_journal :: "(journal_t \<Rightarrow> journal_t) \<Rightarrow> world \<Rightarrow> world" where
  "upd_journal f w = w\<lparr>zone := (zone w)\<lparr>ixfr_db := map_option f (ixfr_db (zone w))\<rparr>\<rparr>"

text \<open>
  A \<open>journal_t *\<close> is either \<open>NULL\<close> or the zone's own journal \<open>zone->ixfr_db\<close>: no
  other journal is reachable from the modelled functions.
\<close>

datatype journal_ptr = NULL | IXFR_DB

section \<open>The journal interface\<close>

text \<open>
  Modelled from the spec: journal.c is not among the sources.  The spec (Change
  Journal) gives the contract: retain and release count references; a transaction is
  begun, committed or rolled back; entries carry the flags VALID, DIRTY and TRANS, and
  an entry stored in a transaction is invisible (TRANS) until the commit; unmap with
  \<open>valid = false\<close> discards the slot; walk applies a function to every node; is_used
  is a predicate.  Each fallible call takes its result from the environment and has its
  effect only when that result is \<open>KNOT_EOK\<close>.
\<close>

definition journal_retain :: "world \<Rightarrow> knot_error \<times> world" where
  "journal_retain w =
     (let (r, w1) = env_next w
      in if r = KNOT_EOK then (r, upd_journal (\<lambda>j. j\<lparr>refs := refs j + 1\<rparr>) w1) else (r, w1))"

definition journal_release :: "world \<Rightarrow> world" where
  "journal_release w = upd_journal (\<lambda>j. j\<lparr>refs := refs j - 1\<rparr>) w"

definition journal_trans_begin :: "world \<Rightarrow> knot_error \<times> world" where
  "journal_trans_begin w = env_next w"

definition journal_trans_commit :: "world \<Rightarrow> knot_error \<times> world" where
  "journal_trans_commit w =
     (let (r, w1) = env_next w
      in if r = KNOT_EOK
         then (r, upd_journal
                (\<lambda>j. j\<lparr>nodes := map (\<lambda>n. n\<lparr>flags := flags n AND NOT JOURNAL_TRANS\<rparr>) (nodes j)\<rparr>)
                w1)
         else (r, w1))"

definition journal_trans_rollback :: "world \<Rightarrow> knot_error \<times> world" where
  "journal_trans_rollback w =
     (let (r, w1) = env_next w
      in if r = KNOT_EOK
         then (r, upd_journal
                (\<lambda>j. j\<lparr>nodes := filter (\<lambda>n. flags n AND JOURNAL_TRANS = 0) (nodes j)\<rparr>) w1)
         else (r, w1))"

definition journal_map :: "world \<Rightarrow> knot_error \<times> world" where
  "journal_map w = env_next w"

definition journal_unmap :: "64 word \<Rightarrow> bool \<Rightarrow> world \<Rightarrow> knot_error \<times> world" where
  "journal_unmap k valid w =
     (let (r, w1) = env_next w
      in if r = KNOT_EOK \<and> valid
         then (r, upd_journal
                (\<lambda>j. j\<lparr>nodes := nodes j @
                   [\<lparr> node_id = k,
                      flags = JOURNAL_VALID OR JOURNAL_DIRTY OR JOURNAL_TRANS \<rparr>]\<rparr>) w1)
         else (r, w1))"

definition journal_walk :: "(journal_node \<Rightarrow> journal_node) \<Rightarrow> world \<Rightarrow> world" where
  "journal_walk fn w = upd_journal (\<lambda>j. j\<lparr>nodes := map fn (nodes j)\<rparr>) w"

definition journal_is_used :: "journal_t option \<Rightarrow> bool" where
  "journal_is_used j = (case j of None \<Rightarrow> False | Some jj \<Rightarrow> is_used jj)"

text \<open>An entry \<open>fetch\<close> can see: VALID and not TRANS.\<close>

definition journal_visible :: "journal_node \<Rightarrow> bool" where
  "journal_visible n = (flags n AND JOURNAL_VALID \<noteq> 0 \<and> flags n AND JOURNAL_TRANS = 0)"

section \<open>Marking journal nodes as synced (zones.c, zones_ixfrdb_sync_apply)\<close>

text \<open>
  \<^verbatim>\<open>if (n->flags & JOURNAL_DIRTY) {
      n->flags = n->flags & ~JOURNAL_DIRTY;
      journal_update(j, n);
  }
  return KNOT_EOK;\<close>
  \<open>journal_update\<close> writes the node back to the file; the node returned is the node
  as the journal then holds it.
\<close>

definition zones_ixfrdb_sync_apply :: "journal_node \<Rightarrow> journal_node" where
  "zones_ixfrdb_sync_apply n =
     (if flags n AND JOURNAL_DIRTY \<noteq> 0
      then n\<lparr>flags := flags n AND NOT JOURNAL_DIRTY\<rparr>
      else n)"

section \<open>Changesets (zones.c, zones_changesets_empty)\<close>

text \<open>
  Of \<open>knot_changeset_t\<close> the two serials and the two sections; of
  \<open>knot_changesets_t\<close> the list \<open>sets\<close>.  The records of a section are not looked
  into, they are numbers here.
\<close>

record knot_changeset_t =
  serial_from :: "32 word"
  serial_to :: "32 word"
  remove :: "nat list"
  add :: "nat list"

record knot_changesets_t =
  sets :: "knot_changeset_t list"

text \<open>
  Modelled from the spec: \<open>knot_changeset_is_empty\<close> (libknot) is not among the
  sources.  A changeset is empty when it removes nothing and adds nothing.
\<close>

definition knot_changeset_is_empty :: "knot_changeset_t \<Rightarrow> bool" where
  "knot_changeset_is_empty ch = (remove ch = [] \<and> add ch = [])"

text \<open>
  \<^verbatim>\<open>if (chs == NULL) return true;
  if (EMPTY_LIST(chs->sets)) return true;
  return knot_changeset_is_empty(HEAD(chs->sets));\<close>
\<close>

definition zones_changesets_empty :: "knot_changesets_t option \<Rightarrow> bool" where
  "zones_changesets_empty chs =
     (case chs of
        None \<Rightarrow> True
      | Some c \<Rightarrow>
          (case sets c of
             [] \<Rightarrow> True
           | ch # _ \<Rightarrow> knot_changeset_is_empty ch))"

section \<open>Storing changesets in the journal (zones.c)\<close>

text \<open>
  \<open>zones_serialize_and_store_chgset\<close> returns \<open>KNOT_ERROR\<close> as soon as one
  \<open>rrset_serialize\<close> fails; whether one does is the environment's.
\<close>

definition zones_serialize_and_store_chgset :: "world \<Rightarrow> knot_error \<times> world" where
  "zones_serialize_and_store_chgset w =
     (let (r, w1) = env_next w in (if r = KNOT_EOK then KNOT_EOK else KNOT_ERROR, w1))"

text \<open>
  \<^verbatim>\<open>uint64_t k = ixfrdb_key_make(chs->serial_from, chs->serial_to);
  ret = journal_map(j, k, &journal_entry, entry_size);
  if (ret != KNOT_EOK) return ret;
  ret = zones_serialize_and_store_chgset(chs, journal_entry, entry_size);
  int unmap_ret = journal_unmap(j, k, journal_entry, ret == KNOT_EOK);
  if (ret == KNOT_EOK && unmap_ret != KNOT_EOK) ret = unmap_ret;
  return ret;\<close>
\<close>

definition zones_store_changeset :: "knot_changeset_t \<Rightarrow> world \<Rightarrow> knot_error \<times> world" where
  "zones_store_changeset chs w =
     (let k = ixfrdb_key_make (serial_from chs) (serial_to chs);
          (ret, w1) = journal_map w
      in if ret \<noteq> KNOT_EOK then (ret, w1)
         else
           (let (ret2, w2) = zones_serialize_and_store_chgset w1;
                (unmap_ret, w3) = journal_unmap k (ret2 = KNOT_EOK) w2
            in (if ret2 = KNOT_EOK \<and> unmap_ret \<noteq> KNOT_EOK then unmap_ret else ret2, w3)))"

text \<open>
  \<^verbatim>\<open>WALK_LIST(chs, src->sets) {
      ret = zones_store_changeset(chs, j, zone);
      if (ret != KNOT_EOK) break;
  }\<close>
\<close>

fun store_walk :: "knot_changeset_t list \<Rightarrow> world \<Rightarrow> knot_error \<times> world" where
  "store_walk [] w = (KNOT_EOK, w)"
| "store_walk (chs # rest) w =
     (let (ret, w1) = zones_store_changeset chs w
      in if ret \<noteq> KNOT_EOK then (ret, w1) else store_walk rest w1)"

definition zones_store_changesets ::
  "knot_changesets_t option \<Rightarrow> world \<Rightarrow> knot_error \<times> world" where
  "zones_store_changesets src w =
     (case src of
        None \<Rightarrow> (KNOT_EINVAL, w)
      | Some s \<Rightarrow>
          if ixfr_db (zone w) = None then (KNOT_EINVAL, w)
          else store_walk (sets s) w)"

text \<open>
  \<^verbatim>\<open>if (!zone->ixfr_db) return NULL;
  int ret = journal_retain(zone->ixfr_db);
  if (ret != KNOT_EOK) return NULL;
  if (journal_trans_begin(zone->ixfr_db) != KNOT_EOK) {
      journal_release(zone->ixfr_db);
      return NULL;
  }
  return zone->ixfr_db;\<close>
\<close>

definition zones_store_changesets_begin :: "world \<Rightarrow> journal_ptr \<times> world" where
  "zones_store_changesets_begin w =
     (if ixfr_db (zone w) = None then (NULL, w)
      else
        (let (ret, w1) = journal_retain w
         in if ret \<noteq> KNOT_EOK then (NULL, w1)
            else
              (let (r2, w2) = journal_trans_begin w1
               in if r2 \<noteq> KNOT_EOK then (NULL, journal_release w2)
                  else (IXFR_DB, w2))))"

definition zones_store_changesets_commit :: "journal_ptr \<Rightarrow> world \<Rightarrow> knot_error \<times> world" where
  "zones_store_changesets_commit j w =
     (case j of
        NULL \<Rightarrow> (KNOT_EINVAL, w)
      | IXFR_DB \<Rightarrow> (let (ret, w1) = journal_trans_commit w in (ret, journal_release w1)))"

definition zones_store_changesets_rollback :: "journal_ptr \<Rightarrow> world \<Rightarrow> knot_error \<times> world" where
  "zones_store_changesets_rollback j w =
     (case j of
        NULL \<Rightarrow> (KNOT_EINVAL, w)
      | IXFR_DB \<Rightarrow> (let (ret, w1) = journal_trans_rollback w in (ret, journal_release w1)))"

text \<open>
  \<^verbatim>\<open>*transaction = zones_store_changesets_begin(zone);
  if (*transaction == NULL) return KNOT_ERROR;
  int ret = zones_store_changesets(zone, chgsets, *transaction);
  if (ret != KNOT_EOK) {
      zones_store_changesets_rollback(*transaction);
      *transaction = NULL;
      return ret;
  }
  return KNOT_EOK;\<close>
  The result is the return code, the value left in \<open>*transaction\<close> and the world.
  Each call leaves the ghost mark \<open>EvTryStore ret\<close> in the trace as it returns.
\<close>

definition zones_store_chgsets_try_store ::
  "knot_changesets_t \<Rightarrow> world \<Rightarrow> knot_error \<times> journal_ptr \<times> world" where
  "zones_store_chgsets_try_store chgsets w =
     (let (transaction, w1) = zones_store_changesets_begin w
      in if transaction = NULL
         then (KNOT_ERROR, NULL, log_event (EvTryStore KNOT_ERROR) w1)
         else
           (let (ret, w2) = zones_store_changesets (Some chgsets) w1
            in if ret \<noteq> KNOT_EOK
               then (let (_, w3) = zones_store_changesets_rollback transaction w2
                     in (ret, NULL, log_event (EvTryStore ret) w3))
               else (KNOT_EOK, transaction, log_event (EvTryStore KNOT_EOK) w2)))"

section \<open>Flushing to the zonefile (zones.c)\<close>

text \<open>
  \<open>zones_dump_zone_text\<close>: a temporary file is made (\<open>mkstemp\<close>), opened
  (\<open>fdopen\<close>), written (\<open>zone_dump_text\<close>) and renamed over the zonefile.  The four
  outcomes come from the environment; \<open>rename\<close> fails when it returns a negative
  value (the test \<open>ret < 0 && ret != EEXIST\<close> of the code is then true, as
  \<open>EEXIST\<close> is positive).  The zonefile is written when the rename has succeeded:
  that is the event \<open>EvZonefileWritten\<close>.
\<close>

definition zones_dump_zone_text :: "world \<Rightarrow> knot_error \<times> world" where
  "zones_dump_zone_text w =
     (let (fd, w1) = env_next w
      in if fd \<noteq> KNOT_EOK then (KNOT_EWRITABLE, w1)
         else
           (let (f, w2) = env_next w1
            in if f \<noteq> KNOT_EOK then (KNOT_ERROR, w2)
               else
                 (let (d, w3) = env_next w2
                  in if d \<noteq> KNOT_EOK then (KNOT_ERROR, w3)
                     else
                       (let (rn, w4) = env_next w3
                        in if rn \<noteq> KNOT_EOK then (KNOT_ERROR, w4)
                           else (KNOT_EOK, log_event EvZonefileWritten w4)))))"

text \<open>
  \<open>zones_zonefile_sync(zone, journal)\<close>.  \<open>zone_given\<close> is \<open>zone != NULL\<close>.
  \<open>knot_rdata_soa_serial\<close> returns a \<open>uint32_t\<close> that the code stores in an
  \<open>int64_t\<close> and tests for \<open>< 0\<close>.
\<close>

definition zones_zonefile_sync :: "bool \<Rightarrow> journal_ptr \<Rightarrow> world \<Rightarrow> knot_error \<times> world" where
  "zones_zonefile_sync zone_given journal w =
     (if \<not> zone_given then (KNOT_EINVAL, w)
      else if journal = NULL then (KNOT_EINVAL, w)
      else
        (case contents (zone w) of
           None \<Rightarrow> (KNOT_EINVAL, w)
         | Some cont \<Rightarrow>
             (let soa_rrs = apex_soa cont;
                  serial_ret = uint (knot_rdata_soa_serial soa_rrs)
              in if serial_ret < 0 then (KNOT_EINVAL, w)
                 else
                   (let serial_to = (word_of_int serial_ret :: 32 word)
                    in if zonefile_serial (zone w) \<noteq> serial_to
                       then
                         (let (ret, w1) = zones_dump_zone_text w
                          in if ret \<noteq> KNOT_EOK then (ret, w1)
                             else
                               (let (st, w2) = env_next w1
                                in if st \<noteq> KNOT_EOK then (KNOT_ERROR, w2)
                                   else
                                     (let w3 = w2\<lparr>zone := (zone w2)\<lparr>zonefile_mtime := clock w2\<rparr>\<rparr>;
                                          w4 = journal_walk zones_ixfrdb_sync_apply w3;
                                          w5 = w4\<lparr>zone := (zone w4)\<lparr>zonefile_serial := serial_to\<rparr>\<rparr>
                                      in (KNOT_EOK, w5))))
                       else (KNOT_ERANGE, w)))))"

text \<open>
  \<^verbatim>\<open>int ret = KNOT_EOK;
  if (zone->contents && journal_is_used(zone->ixfr_db)) {
      ret = journal_retain(zone->ixfr_db);
      if (ret == KNOT_EOK) {
          ret = zones_zonefile_sync(zone, zone->ixfr_db);
          journal_release(zone->ixfr_db);
      }
      ... log ...
  }
  return ret;\<close>
  Each call leaves the ghost mark \<open>EvSyncFromEv ret\<close> in the trace as it returns.
\<close>

definition zones_zonefile_sync_from_ev :: "world \<Rightarrow> knot_error \<times> world" where
  "zones_zonefile_sync_from_ev w =
     (if contents (zone w) \<noteq> None \<and> journal_is_used (ixfr_db (zone w))
      then
        (let (ret, w1) = journal_retain w
         in if ret = KNOT_EOK
            then (let (ret2, w2) = zones_zonefile_sync True IXFR_DB w1;
                      w3 = journal_release w2
                  in (ret2, log_event (EvSyncFromEv ret2) w3))
            else (ret, log_event (EvSyncFromEv ret) w1))
      else (KNOT_EOK, log_event (EvSyncFromEv KNOT_EOK) w))"

text \<open>
  \<open>zones_store_changesets_begin_and_store(zone, chgsets, transaction)\<close>.
  \<open>ndebug\<close> says whether the program was compiled with \<open>NDEBUG\<close>, that is, whether
  \<open>assert\<close> is a no-op.  \<open>transaction\<close> is the value \<open>*transaction\<close> has at the call.
  The zone pointer is the world's zone and never \<open>NULL\<close>.

  \<^verbatim>\<open>assert(zone != NULL);
  assert(chgsets != NULL);
  if (zones_changesets_empty(chgsets)) return KNOT_EINVAL;
  int ret = zones_store_chgsets_try_store(zone, chgsets, transaction);
  if (ret == KNOT_EBUSY) {
      assert(*transaction == NULL);
      ret = zones_zonefile_sync_from_ev(zone);
      if (ret != KNOT_EOK) return ret;
      ret = zones_store_chgsets_try_store(zone, chgsets, transaction);
  }
  return ret;\<close>
\<close>

definition zones_store_changesets_begin_and_store ::
  "bool \<Rightarrow> knot_changesets_t option \<Rightarrow> journal_ptr \<Rightarrow> world
     \<Rightarrow> failure + (knot_error \<times> journal_ptr \<times> world)" where
  "zones_store_changesets_begin_and_store ndebug chgsets transaction w =
     (if \<not> ndebug \<and> chgsets = None then Inl AssertFailed
      else if zones_changesets_empty chgsets then Inr (KNOT_EINVAL, transaction, w)
      else
        (case chgsets of
           None \<Rightarrow> Inr (KNOT_EINVAL, transaction, w)
         | Some c \<Rightarrow>
             (let (ret, tr1, w1) = zones_store_chgsets_try_store c w
              in if ret = KNOT_EBUSY
                 then
                   (if \<not> ndebug \<and> tr1 \<noteq> NULL then Inl AssertFailed
                    else
                      (let (ret2, w2) = zones_zonefile_sync_from_ev w1
                       in if ret2 \<noteq> KNOT_EOK then Inr (ret2, tr1, w2)
                          else Inr (zones_store_chgsets_try_store c w2)))
                 else Inr (ret, tr1, w1))))"

section \<open>Merging and storing changesets (zones.c, zones_merge_and_store_changesets)\<close>

text \<open>
  \<open>knot_changesets_get_last\<close>: the last changeset of the list.  It is only called on
  envelopes that \<open>zones_changesets_empty\<close> has found non-empty.
\<close>

definition knot_changesets_get_last :: "knot_changesets_t \<Rightarrow> knot_changeset_t option" where
  "knot_changesets_get_last chs = (if sets chs = [] then None else Some (last (sets chs)))"

text \<open>
  Modelled from the spec: \<open>knot_changeset_merge\<close> (libknot) is not among the sources.
  The spec: merge(a, b) requires \<open>a.serial_to == b.serial_from\<close>; the result ends at
  \<open>b.serial_to\<close>.  The sections of \<open>b\<close> are appended to those of \<open>a\<close>.
\<close>

definition knot_changeset_merge :: "knot_changeset_t \<Rightarrow> knot_changeset_t \<Rightarrow> knot_changeset_t" where
  "knot_changeset_merge a b =
     a\<lparr>serial_to := serial_to b, remove := remove a @ remove b, add := add a @ add b\<rparr>"

definition set_last :: "knot_changesets_t \<Rightarrow> knot_changeset_t \<Rightarrow> knot_changesets_t" where
  "set_last chs ch = chs\<lparr>sets := butlast (sets chs) @ [ch]\<rparr>"

text \<open>
  \<^verbatim>\<open>if (zones_changesets_empty(diff_chs) && zones_changesets_empty(sec_chs))
      return KNOT_EOK;
  if (!zones_changesets_empty(diff_chs) && zones_changesets_empty(sec_chs))
      return zones_store_changesets_begin_and_store(zone, diff_chs, transaction);
  if (zones_changesets_empty(diff_chs) && !zones_changesets_empty(sec_chs))
      return zones_store_changesets_begin_and_store(zone, sec_chs, transaction);
  knot_changeset_t *diff_ch = knot_changesets_get_last(diff_chs);
  knot_changeset_t *sec_ch =  knot_changesets_get_last(sec_chs);
  assert(diff_ch->serial_to == sec_ch->serial_from);
  int ret = knot_changeset_merge(diff_ch, sec_ch);
  if (ret != KNOT_EOK) return ret;
  assert(diff_ch->serial_to == sec_ch->serial_to);
  ret = zones_store_changesets_begin_and_store(zone, diff_chs, transaction);
  if (ret != KNOT_EOK) return ret;
  return KNOT_EOK;\<close>
  Whether the merge succeeds is the environment's.
\<close>

definition zones_merge_and_store_changesets ::
  "bool \<Rightarrow> knot_changesets_t option \<Rightarrow> knot_changesets_t option \<Rightarrow> journal_ptr \<Rightarrow> world
     \<Rightarrow> failure + (knot_error \<times> journal_ptr \<times> world)" where
  "zones_merge_and_store_changesets ndebug diff_chs sec_chs transaction w =
     (if zones_changesets_empty diff_chs \<and> zones_changesets_empty sec_chs
      then Inr (KNOT_EOK, transaction, w)
      else if \<not> zones_changesets_empty diff_chs \<and> zones_changesets_empty sec_chs
      then zones_store_changesets_begin_and_store ndebug diff_chs transaction w
      else if zones_changesets_empty diff_chs \<and> \<not> zones_changesets_empty sec_chs
      then zones_store_changesets_begin_and_store ndebug sec_chs transaction w
      else
        (case (diff_chs, sec_chs) of
           (Some d, Some s) \<Rightarrow>
             (case (knot_changesets_get_last d, knot_changesets_get_last s) of
                (Some diff_ch, Some sec_ch) \<Rightarrow>
                  if \<not> ndebug \<and> serial_to diff_ch \<noteq> serial_from sec_ch then Inl AssertFailed
                  else
                    (let (ret, w1) = env_next w
                     in if ret \<noteq> KNOT_EOK then Inr (ret, transaction, w1)
                        else
                          (let merged = set_last d (knot_changeset_merge diff_ch sec_ch)
                           in zones_store_changesets_begin_and_store ndebug
                                (Some merged) transaction w1))
              | _ \<Rightarrow> Inl NullDeref)
         | _ \<Rightarrow> Inl NullDeref))"

section \<open>Processing an UPDATE: store, commit, switch (zones.c, zones_process_update_auth)\<close>

text \<open>
  Modelled from the spec: \<open>xfrin_rollback_update\<close> and \<open>xfrin_switch_zone\<close>
  (knot/updates/xfr-in.c) are not among the sources.  The rollback frees the new
  contents and leaves \<open>zone->contents\<close> as it is; it is the event
  \<open>EvRollbackUpdate\<close>.  The switch installs the new contents when it succeeds, and
  "a failed swap leaves the old snapshot installed"; whether it succeeds is the
  environment's.
\<close>

definition xfrin_rollback_update :: "world \<Rightarrow> world" where
  "xfrin_rollback_update w = log_event EvRollbackUpdate w"

definition xfrin_switch_zone :: "knot_zone_contents \<Rightarrow> world \<Rightarrow> knot_error \<times> world" where
  "xfrin_switch_zone new_contents w =
     (let (r, w1) = env_next w
      in if r = KNOT_EOK then (r, w1\<lparr>zone := (zone w1)\<lparr>contents := Some new_contents\<rparr>\<rparr>)
         else (r, w1))"

text \<open>
  \<open>zones_schedule_dnssec(zone, unixtime)\<close>, for a zone whose \<open>dnssec_timer\<close> exists
  (the one caller modelled here has asserted it, so the \<open>KNOT_EAGAIN\<close> return for a
  missing timer is not reached):
  \<^verbatim>\<open>time_t now = time(NULL);
  int32_t relative = 0;
  if (unixtime <= now) {
      log_zone_warning("DNSSEC: Zone %s: Signature life time too low, ...");
  } else {
      relative = unixtime - now;
  }
  ...
  evsched_schedule(scheduler, zone->dnssec_timer, relative * 1000);
  return KNOT_EOK;\<close>
  \<open>relative\<close> is an \<open>int32_t\<close>: the difference is cut to 32 bits and read as two's
  complement.  The delay handed to the scheduler is a \<open>uint32_t\<close> number of
  milliseconds; the product is taken with wrap-around.

  Modelled from the spec: \<open>evsched_schedule\<close> (the event scheduler) is not among the
  sources.  It makes the timer fire the given number of milliseconds from now; the
  model records the second in which it fires in \<open>dnssec_timer_sec\<close>.
\<close>

definition zones_schedule_dnssec :: "int \<Rightarrow> world \<Rightarrow> knot_error \<times> world" where
  "zones_schedule_dnssec unixtime w =
     (let now = clock w;
          (relative, w1) =
             (if unixtime \<le> now then (0, log_event LogSignatureLifetimeWarning w)
              else (sint (word_of_int (unixtime - now) :: 32 word), w));
          dt = (word_of_int (relative * 1000) :: 32 word)
      in (KNOT_EOK,
          w1\<lparr>zone := (zone w1)\<lparr>dnssec_timer_sec := now + uint dt div 1000\<rparr>\<rparr>))"

text \<open>
  \<^verbatim>\<open>if (zone->dnssec_timer->tv.tv_sec <= refresh_at) return KNOT_EOK;
  zones_cancel_dnssec(zone);
  return zones_schedule_dnssec(zone, refresh_at);\<close>
  \<open>zones_cancel_dnssec\<close> cancels the pending event and returns \<open>KNOT_EOK\<close>; it
  changes nothing the model keeps.
\<close>

definition replan_zone_sign_after_ddns :: "32 word \<Rightarrow> world \<Rightarrow> knot_error \<times> world" where
  "replan_zone_sign_after_ddns refresh_at w =
     (if dnssec_timer_sec (zone w) \<le> uint refresh_at then (KNOT_EOK, w)
      else zones_schedule_dnssec (uint refresh_at) w)"

text \<open>
  The part of \<open>zones_process_update_auth\<close> from \<open>// Merge changesets\<close> to its end
  (lines 1057 to 1181).  What the earlier part has produced is given: the changesets of
  the update \<open>chgsets\<close>, the DNSSEC changesets \<open>sec_chs\<close> (\<open>NULL\<close> when signing is
  off; \<open>sec_ch\<close> is its changeset), the new contents and \<open>refresh_at\<close>.  The results
  of \<open>xfrin_apply_changesets_dnssec\<close> and of
  \<open>knot_zone_contents_adjust_nsec3_pointers\<close> are the environment's.  The code on
  each path, in order:

  \<^item> the store fails: \<open>xfrin_rollback_update\<close>, return the error;
  \<^item> applying the DNSSEC changeset fails: \<open>zones_store_changesets_rollback\<close>,
    return the error;
  \<^item> replanning fails: \<open>zones_store_changesets_rollback\<close>, return the error;
  \<^item> adjusting the NSEC3 pointers fails: \<open>zones_store_changesets_rollback\<close>,
    \<open>xfrin_rollback_update\<close>, return the error;
  \<^item> the commit fails: \<open>xfrin_rollback_update\<close>, return the error;
  \<^item> the switch fails: \<open>xfrin_rollback_update\<close>, return \<open>KNOT_ERROR\<close>;
  \<^item> otherwise \<open>*rcode = KNOT_RCODE_NOERROR\<close>, and with \<open>dbsync_timeout == 0\<close>
    the flush is scheduled at once.
\<close>

definition zones_process_update_auth ::
  "bool \<Rightarrow> knot_changesets_t \<Rightarrow> knot_changesets_t option \<Rightarrow> knot_zone_contents \<Rightarrow> 32 word
     \<Rightarrow> world \<Rightarrow> failure + (knot_error \<times> world)" where
  "zones_process_update_auth ndebug chgsets sec_chs new_contents refresh_at w =
     (case zones_merge_and_store_changesets ndebug (Some chgsets) sec_chs NULL w of
        Inl f \<Rightarrow> Inl f
      | Inr (ret, transaction, w1) \<Rightarrow>
          if ret \<noteq> KNOT_EOK then Inr (ret, xfrin_rollback_update w1)
          else
            (let sec_ch = (case sec_chs of None \<Rightarrow> None | Some s \<Rightarrow> knot_changesets_get_last s);
                 new_signatures =
                   (case sec_ch of None \<Rightarrow> False | Some ch \<Rightarrow> \<not> knot_changeset_is_empty ch);
                 (ret2, w2) =
                   (if new_signatures
                    then
                      (let (r, wa) = env_next w1
                       in if r \<noteq> KNOT_EOK
                          then (r, snd (zones_store_changesets_rollback transaction wa))
                          else
                            (let (r2, wb) = replan_zone_sign_after_ddns refresh_at wa
                             in if r2 \<noteq> KNOT_EOK
                                then (r2, snd (zones_store_changesets_rollback transaction wb))
                                else (KNOT_EOK, wb)))
                    else
                      (let (r, wa) = env_next w1
                       in if r \<noteq> KNOT_EOK
                          then (r, xfrin_rollback_update
                                     (snd (zones_store_changesets_rollback transaction wa)))
                          else (KNOT_EOK, wa)))
             in if ret2 \<noteq> KNOT_EOK then Inr (ret2, w2)
                else
                  (let (ret3, w3) =
                         (if transaction \<noteq> NULL
                          then zones_store_changesets_commit transaction w2
                          else (KNOT_EOK, w2))
                   in if ret3 \<noteq> KNOT_EOK then Inr (ret3, xfrin_rollback_update w3)
                      else
                        (let (ret4, w4) = xfrin_switch_zone new_contents w3
                         in if ret4 \<noteq> KNOT_EOK
                            then Inr (KNOT_ERROR, xfrin_rollback_update w4)
                            else
                              (let w5 = log_event EvRcodeNoError w4;
                                   w6 = (if conf_dbsync_timeout (zone w5) = 0
                                         then log_event EvScheduleSync w5 else w5)
                               in Inr (KNOT_EOK, w6))))))"

section \<open>The zone dump (dnslib/zone-dump.c): zones and nodes\<close>

text \<open>
  A domain name is an abstract value; two names are the same name when they are equal.
  Of an RRSet the model keeps its type and, for a CNAME, what
  \<open>dnslib_rdata_cname_name\<close> returns on its first RDATA (the target, or \<open>NULL\<close>).
  Of a node it keeps the owner, whether the node is non-authoritative and its RRSets.
  A zone has its tree of normal nodes and its tree of NSEC3 nodes, each as the list of
  its nodes in order, and the counter \<open>zone->node_count\<close>.
\<close>

type_synonym dname = nat

record dnslib_rrset =
  rrset_type :: nat
  cname_name :: "dname option"

record dnslib_node =
  owner :: dname
  non_auth :: bool
  rrsets :: "dnslib_rrset list"

record dnslib_zone =
  tree :: "dnslib_node list"
  nsec3_tree :: "dnslib_node list"
  zone_node_count :: "32 word"

definition DNSLIB_RRTYPE_CNAME :: nat where "DNSLIB_RRTYPE_CNAME = 5"

text \<open>
  Modelled from the spec: \<open>dnslib_zone_get_node\<close>, \<open>dnslib_zone_get_nsec3_node\<close>
  and \<open>dnslib_node_rrset\<close> (dnslib/zone.c, dnslib/node.c) are not among the sources.
  They find the node of a tree by its owner name, and the RRSet of a node by its type;
  each returns \<open>NULL\<close> when there is none.
\<close>

definition dnslib_zone_get_node :: "dnslib_zone \<Rightarrow> dname \<Rightarrow> dnslib_node option" where
  "dnslib_zone_get_node z d = find (\<lambda>n. owner n = d) (tree z)"

definition dnslib_zone_get_nsec3_node :: "dnslib_zone \<Rightarrow> dname \<Rightarrow> dnslib_node option" where
  "dnslib_zone_get_nsec3_node z d = find (\<lambda>n. owner n = d) (nsec3_tree z)"

definition dnslib_node_rrset :: "dnslib_node \<Rightarrow> nat \<Rightarrow> dnslib_rrset option" where
  "dnslib_node_rrset n t = find (\<lambda>r. rrset_type r = t) (rrsets n)"

section \<open>CNAME chains (zone-dump.c, check_cname_cycles_in_zone)\<close>

definition MAX_CNAME_CYCLE_DEPTH :: nat where "MAX_CNAME_CYCLE_DEPTH = 15"

text \<open>
  The body of the loop, from \<open>next_dname\<close> to the new \<open>next_dname\<close>:
  \<^verbatim>\<open>next_node = dnslib_zone_get_node(zone, next_dname);
  if (next_node == NULL)
      next_node = dnslib_zone_get_nsec3_node(zone, next_dname);
  if (next_node != NULL) {
      next_rrset = dnslib_node_rrset(next_node, DNSLIB_RRTYPE_CNAME);
      if (next_rrset != NULL)
          next_dname = dnslib_rdata_cname_name(next_rrset->rdata);
      else { next_node = NULL; next_dname = NULL; }
  } else next_dname = NULL;\<close>
\<close>

definition cname_step :: "dnslib_zone \<Rightarrow> dname \<Rightarrow> dname option" where
  "cname_step zn next_dname =
     (let next_node =
            (case dnslib_zone_get_node zn next_dname of
               None \<Rightarrow> dnslib_zone_get_nsec3_node zn next_dname
             | Some n \<Rightarrow> Some n)
      in case next_node of
           Some n \<Rightarrow>
             (case dnslib_node_rrset n DNSLIB_RRTYPE_CNAME of
                Some next_rrset \<Rightarrow> cname_name next_rrset
              | None \<Rightarrow> None)
         | None \<Rightarrow> None)"

text \<open>
  \<^verbatim>\<open>while (i < MAX_CNAME_CYCLE_DEPTH && next_dname != NULL) { ...; i++; }\<close>
  The result is the value of \<open>i\<close> after the loop.
\<close>

function cname_loop :: "dnslib_zone \<Rightarrow> nat \<Rightarrow> dname option \<Rightarrow> nat" where
  "cname_loop zn i next_dname =
     (if i < MAX_CNAME_CYCLE_DEPTH \<and> next_dname \<noteq> None
      then cname_loop zn (i + 1) (cname_step zn (the next_dname))
      else i)"
  by pat_completeness auto
termination
  by (relation "measure (\<lambda>(zn, i, next_dname). MAX_CNAME_CYCLE_DEPTH - i)") auto

text \<open>
  \<^verbatim>\<open>/* ret 0 OK, -1 cycle, -2 invalid cycle (destination not found) */
  ...
  assert(next_dname);
  while ...
  /* even if the length is 0, i will be 1 */
  if (i >= MAX_CNAME_CYCLE_DEPTH) return -1;
  return 0;\<close>
\<close>

definition check_cname_cycles_in_zone :: "dnslib_zone \<Rightarrow> dnslib_rrset \<Rightarrow> failure + int" where
  "check_cname_cycles_in_zone zn rrset =
     (let next_dname = cname_name rrset
      in if next_dname = None then Inl AssertFailed
         else
           (let i = cname_loop zn 0 next_dname
            in if i \<ge> MAX_CNAME_CYCLE_DEPTH then Inr (- 1) else Inr 0))"

text \<open>
  The chain itself, for stating the properties: \<open>chain_after zn n d\<close> is the name the
  chain has reached after \<open>n\<close> lookups starting at \<open>d\<close>, and \<open>None\<close> when the chain
  has ended by then (a lookup found no node in either tree, or a node without CNAME).
  The chain terminates within \<open>n\<close> lookups when \<open>chain_after zn n d = None\<close>.
\<close>

fun chain_after :: "dnslib_zone \<Rightarrow> nat \<Rightarrow> dname option \<Rightarrow> dname option" where
  "chain_after zn 0 d = d"
| "chain_after zn (Suc n) d =
     (case d of None \<Rightarrow> None | Some x \<Rightarrow> chain_after zn n (cname_step zn x))"

section \<open>The binary dump and its counters (zone-dump.c, dnslib_zdump_binary)\<close>

text \<open>
  \<^verbatim>\<open>/* TODO Think of a better way than a global variable */
  static uint node_count = 0;\<close>
  The state of a dump: the global \<open>node_count\<close> (it lives as long as the process),
  the zone, and the file.  Of the file the model keeps the three count slots of the
  header and the nodes written after it, in order.
\<close>

record dump_file =
  hdr_normal_count :: "32 word"
  hdr_nsec3_count :: "32 word"
  hdr_auth_count :: "32 word"
  written :: "dnslib_node list"

record dump_state =
  node_count :: "32 word"
  dzone :: dnslib_zone
  dfile :: dump_file

text \<open>
  \<^verbatim>\<open>node_count++;
  if (!dnslib_node_is_non_auth(node)) zone->node_count++;
  ... the node, its owner and its RRSets are written ...\<close>
\<close>

definition dnslib_node_dump_binary :: "dnslib_node \<Rightarrow> dump_state \<Rightarrow> dump_state" where
  "dnslib_node_dump_binary node st =
     (let st1 = st\<lparr>node_count := node_count st + 1\<rparr>;
          st2 = (if \<not> non_auth node
                 then st1\<lparr>dzone := (dzone st1)\<lparr>zone_node_count := zone_node_count (dzone st1) + 1\<rparr>\<rparr>
                 else st1)
      in st2\<lparr>dfile := (dfile st2)\<lparr>written := written (dfile st2) @ [node]\<rparr>\<rparr>)"

text \<open>
  Modelled from the spec: \<open>dnslib_zone_tree_apply_inorder\<close> and
  \<open>dnslib_zone_nsec3_apply_inorder\<close> (dnslib/zone.c) are not among the sources.  They
  apply the function to every node of the tree, in order.
\<close>

definition dnslib_zone_tree_apply_inorder ::
  "(dnslib_node \<Rightarrow> dump_state \<Rightarrow> dump_state) \<Rightarrow> dump_state \<Rightarrow> dump_state" where
  "dnslib_zone_tree_apply_inorder f st = fold f (tree (dzone st)) st"

definition dnslib_zone_nsec3_apply_inorder ::
  "(dnslib_node \<Rightarrow> dump_state \<Rightarrow> dump_state) \<Rightarrow> dump_state \<Rightarrow> dump_state" where
  "dnslib_zone_nsec3_apply_inorder f st = fold f (nsec3_tree (dzone st)) st"

text \<open>
  The pass before the dump, \<open>zone_save_enclosers_sem_check\<close>, applies
  \<open>dnslib_zone_save_enclosers_in_tree\<close> to every node of the normal tree.  Saving the
  closest enclosers fills a side table and touches neither the file nor a counter; it
  is left out.  The semantic checks only log, but they can stop the program:
  \<^verbatim>\<open>const dnslib_rrset_t *cname_rrset = NULL;
  if (do_checks) {
      cname_rrset = dnslib_node_rrset(node, DNSLIB_RRTYPE_CNAME);
      if (cname_rrset != NULL) {
          if (check_cname_cycles_in_zone(zone, cname_rrset) != 0) { ... log ... }
      }
      ... log ...
      if (dnslib_rrset_rdata(cname_rrset)->next != dnslib_rrset_rdata(cname_rrset)) {
          ... log ...
      }
  }\<close>
  The last test reads the RDATA of \<open>cname_rrset\<close> also when the node has no CNAME
  RRSet and \<open>cname_rrset\<close> is \<open>NULL\<close>: a \<open>NULL\<close> dereference.  The result is the
  failure, if any.
\<close>

definition dnslib_zone_save_enclosers_in_tree ::
  "8 word \<Rightarrow> dnslib_zone \<Rightarrow> dnslib_node \<Rightarrow> failure option" where
  "dnslib_zone_save_enclosers_in_tree do_checks zn node =
     (if do_checks \<noteq> 0
      then
        (case dnslib_node_rrset node DNSLIB_RRTYPE_CNAME of
           None \<Rightarrow> Some NullDeref
         | Some cname_rrset \<Rightarrow>
             (case check_cname_cycles_in_zone zn cname_rrset of
                Inl f \<Rightarrow> Some f
              | Inr _ \<Rightarrow> None))
      else None)"

fun sem_check_walk :: "8 word \<Rightarrow> dnslib_zone \<Rightarrow> dnslib_node list \<Rightarrow> failure option" where
  "sem_check_walk do_checks zn [] = None"
| "sem_check_walk do_checks zn (node # rest) =
     (case dnslib_zone_save_enclosers_in_tree do_checks zn node of
        Some f \<Rightarrow> Some f
      | None \<Rightarrow> sem_check_walk do_checks zn rest)"

definition zone_save_enclosers_sem_check :: "dnslib_zone \<Rightarrow> 8 word \<Rightarrow> failure option" where
  "zone_save_enclosers_sem_check zn do_checks = sem_check_walk do_checks zn (tree zn)"

text \<open>
  \<open>dnslib_zdump_binary(zone, filename, do_checks, sfilename)\<close>, given the global
  \<open>node_count\<close> as the process has it at the call.  \<open>fopen_ok\<close> says whether
  \<open>fopen\<close> succeeded; \<open>do_checks\<close> is a \<open>char\<close>.  For a secure zone a non-zero
  \<open>do_checks\<close> is raised to 2, which changes only what the checks log.
  \<^verbatim>\<open>f = fopen(filename, "wb");
  if (f == NULL) return -1;
  zone->node_count = 0;
  ...
  if (do_checks && zone_is_secure(zone)) do_checks = 2;
  zone_save_enclosers_sem_check(zone, encloser_list, do_checks);
  ...
  fwrite(&node_count, sizeof(node_count), 1, f);
  fwrite(&node_count, sizeof(node_count), 1, f);
  fwrite(&zone->node_count, sizeof(zone->node_count), 1, f);
  ...
  dnslib_zone_tree_apply_inorder(zone, dnslib_node_dump_binary, (void *)&arguments);
  uint tmp_count = node_count;
  node_count = 0;
  dnslib_zone_nsec3_apply_inorder(zone, dnslib_node_dump_binary, (void *)&arguments);
  fseek(f, header_len, SEEK_SET);
  fwrite(&tmp_count, sizeof(tmp_count), 1, f);
  fwrite(&node_count, sizeof(node_count), 1, f);
  fwrite(&zone->node_count, sizeof(zone->node_count), 1, f);
  fclose(f);
  return 0;\<close>
  The result is a failure of the pass before the dump, or the return value, the global
  \<open>node_count\<close> and the zone after the call, and the file when one was written.
\<close>

definition dnslib_zdump_binary ::
  "bool \<Rightarrow> 8 word \<Rightarrow> 32 word \<Rightarrow> dnslib_zone
     \<Rightarrow> failure + (int \<times> 32 word \<times> dnslib_zone \<times> dump_file option)" where
  "dnslib_zdump_binary fopen_ok do_checks node_count0 zn =
     (if \<not> fopen_ok then Inr (- 1, node_count0, zn, None)
      else
        (let zone1 = zn\<lparr>zone_node_count := 0\<rparr>
         in case zone_save_enclosers_sem_check zone1 do_checks of
              Some fl \<Rightarrow> Inl fl
            | None \<Rightarrow>
                (let f = \<lparr> hdr_normal_count = node_count0, hdr_nsec3_count = node_count0,
                           hdr_auth_count = zone_node_count zone1, written = [] \<rparr>;
                     st = \<lparr> node_count = node_count0, dzone = zone1, dfile = f \<rparr>;
                     st1 = dnslib_zone_tree_apply_inorder dnslib_node_dump_binary st;
                     tmp_count = node_count st1;
                     st2 = st1\<lparr>node_count := 0\<rparr>;
                     st3 = dnslib_zone_nsec3_apply_inorder dnslib_node_dump_binary st2;
                     f' = (dfile st3)\<lparr> hdr_normal_count := tmp_count,
                                        hdr_nsec3_count := node_count st3,
                                        hdr_auth_count := zone_node_count (dzone st3) \<rparr>
                 in Inr (0, node_count st3, dzone st3, Some f'))))"

text \<open>
  Two dumps one after the other in one process, both without semantic checks
  (\<open>do_checks = 0\<close>): the second call starts with the global \<open>node_count\<close> and the
  zone the first call has left.  The result is the file of the first and the file of
  the second dump.
\<close>

definition dump_twice :: "dnslib_zone \<Rightarrow> failure + (dump_file option \<times> dump_file option)" where
  "dump_twice zn =
     (case dnslib_zdump_binary True 0 0 zn of
        Inl fl \<Rightarrow> Inl fl
      | Inr (r1, nc1, zone1, f1) \<Rightarrow>
          (case dnslib_zdump_binary True 0 nc1 zone1 of
             Inl fl \<Rightarrow> Inl fl
           | Inr (r2, nc2, zone2, f2) \<Rightarrow> Inr (f1, f2)))"

section \<open>Reading the trace\<close>

text \<open>
  The ghost marks of the trace: one \<open>EvTryStore\<close> per call of
  \<open>zones_store_chgsets_try_store\<close>, one \<open>EvSyncFromEv\<close> per call of
  \<open>zones_zonefile_sync_from_ev\<close>, each with the code the call returned.
\<close>

definition is_call_mark :: "event \<Rightarrow> bool" where
  "is_call_mark e = (case e of EvTryStore _ \<Rightarrow> True | EvSyncFromEv _ \<Rightarrow> True | _ \<Rightarrow> False)"

section \<open>Example inputs\<close>

text \<open>
  A zone at serial 100 with REFRESH 600 s and RETRY 60 s, the EXPIRE value and the serial
  policy left open; it has no journal and its zonefile is at serial 100.
\<close>

definition example_zone :: "32 word \<Rightarrow> serial_policy \<Rightarrow> zone_t" where
  "example_zone expire policy =
     \<lparr> contents = Some \<lparr> apex_soa =
         \<lparr> knot_rdata_soa_serial = 100, knot_rdata_soa_refresh = 600,
           knot_rdata_soa_retry = 60, knot_rdata_soa_expire = expire \<rparr> \<rparr>,
       zonefile_serial = 100, zonefile_mtime = 0, ixfr_db = None,
       conf_serial_policy = policy, conf_dbsync_timeout = 0, dnssec_timer_sec = 0 \<rparr>"

text \<open>
  A world around that zone, given a journal that is in use and holds the nodes \<open>ns\<close>,
  with the zonefile at serial \<open>zs\<close> and the environment script \<open>sc\<close>.
\<close>

definition example_world :: "journal_node list \<Rightarrow> 32 word \<Rightarrow> knot_error list \<Rightarrow> world" where
  "example_world ns zs sc =
     \<lparr> zone = (example_zone 3600 CONF_SERIAL_INCREMENT)
         \<lparr> ixfr_db := Some \<lparr> nodes = ns, refs = 0, is_used = True \<rparr>,
           zonefile_serial := zs \<rparr>,
       script = sc, events = [], clock = 1000 \<rparr>"

text \<open>The changesets of an update from serial 100 to 101 that adds one record.\<close>

definition example_chgsets :: knot_changesets_t where
  "example_chgsets =
     \<lparr> sets = [\<lparr> serial_from = 100, serial_to = 101, remove = [], add = [1] \<rparr>] \<rparr>"

text \<open>The contents the update produces: the same SOA at serial 101.\<close>

definition example_new_contents :: knot_zone_contents where
  "example_new_contents =
     \<lparr> apex_soa = \<lparr> knot_rdata_soa_serial = 101, knot_rdata_soa_refresh = 600,
           knot_rdata_soa_retry = 60, knot_rdata_soa_expire = 3600 \<rparr> \<rparr>"

text \<open>The DNSSEC changesets of that update: one changeset of signatures at serial 101.\<close>

definition example_sec_chs :: knot_changesets_t where
  "example_sec_chs =
     \<lparr> sets = [\<lparr> serial_from = 101, serial_to = 101, remove = [], add = [2] \<rparr>] \<rparr>"

text \<open>
  A node that has a CNAME RRSet pointing at \<open>target\<close>, and a node that has an A RRSet
  (type 1) only.
\<close>

definition cname_node :: "dname \<Rightarrow> dname \<Rightarrow> dnslib_node" where
  "cname_node own target =
     \<lparr> owner = own, non_auth = False,
       rrsets = [\<lparr> rrset_type = DNSLIB_RRTYPE_CNAME, cname_name = Some target \<rparr>] \<rparr>"

definition plain_node :: "dname \<Rightarrow> bool \<Rightarrow> dnslib_node" where
  "plain_node own na =
     \<lparr> owner = own, non_auth = na, rrsets = [\<lparr> rrset_type = 1, cname_name = None \<rparr>] \<rparr>"

text \<open>
  A zone with the chain \<open>1 \<rightarrow> 2 \<rightarrow> ... \<rightarrow> m\<close>: the names \<open>1\<close> to \<open>7\<close> are in the
  normal tree, the names from \<open>8\<close> on in the NSEC3 tree, each below \<open>m\<close> with a
  CNAME to its successor; the name \<open>m\<close> is not in the zone.
\<close>

definition chain_zone :: "nat \<Rightarrow> dnslib_zone" where
  "chain_zone m =
     \<lparr> tree = map (\<lambda>k. cname_node k (k + 1)) (filter (\<lambda>k. k < m) [1, 2, 3, 4, 5, 6, 7]),
       nsec3_tree = map (\<lambda>k. cname_node k (k + 1))
                      (filter (\<lambda>k. k < m) [8, 9, 10, 11, 12, 13, 14, 15, 16, 17, 18, 19]),
       zone_node_count = 0 \<rparr>"

text \<open>The CNAME RRSet of a node outside the chain that points at its head, the name 1.\<close>

definition chain_head :: dnslib_rrset where
  "chain_head = \<lparr> rrset_type = DNSLIB_RRTYPE_CNAME, cname_name = Some 1 \<rparr>"

text \<open>
  A zone with two normal nodes, one of them glue (non-authoritative), and one NSEC3 node.
\<close>

definition small_zone :: dnslib_zone where
  "small_zone =
     \<lparr> tree = [plain_node 1 False, plain_node 2 True],
       nsec3_tree = [plain_node 3 False],
       zone_node_count = 0 \<rparr>"

section \<open>Properties\<close>

lemma low_mask: "(0x00000000ffffffff :: 64 word) = mask 32"
  by (simp add: mask_eq_exp_minus_1)

lemma ucast_sub_down:
  "(ucast ((ucast (a::32 word) :: 64 word) - x) :: 32 word) = a - ucast x"
proof -
  have ua: "uint (ucast a :: 64 word) = uint a"
    by (simp add: uint_up_ucast is_up)
  have "uint (ucast ((ucast a :: 64 word) - x) :: 32 word)
        = take_bit 32 (take_bit 64 (uint (ucast a :: 64 word) - uint x))"
    by (simp only: unsigned_ucast_eq uint_word_ariths take_bit_eq_mod[symmetric]) simp
  also have "\<dots> = take_bit 32 (uint a - uint x)"
    by (simp add: ua)
  finally have l:
    "uint (ucast ((ucast a :: 64 word) - x) :: 32 word) = take_bit 32 (uint a - uint x)" .
  have "uint (a - (ucast x :: 32 word)) = take_bit 32 (uint a - uint x)"
    by (simp add: uint_word_ariths unsigned_ucast_eq take_bit_eq_mod mod_diff_right_eq)
  with l show ?thesis by (simp add: word_uint_eq_iff)
qed

lemma ucast_32_64_32: "(ucast (ucast (s::32 word) :: 64 word) :: 32 word) = s"
  by (simp add: ucast_up_ucast_id is_up)

lemma sint_sub_zero: "(sint (a - s :: 32 word) = 0) = (a = s)"
  by (metis signed_eq_0_iff eq_iff_diff_eq_0)

lemma sint_sub_exact:
  assumes "- (2 ^ 31) \<le> uint a - uint s" and "uint a - uint s < 2 ^ 31"
  shows "sint (a - s :: 32 word) = uint a - uint s"
proof -
  have "a - s = word_of_int (uint a - uint s)" by simp
  then have "sint (a - s) = signed_take_bit 31 (uint a - uint s)"
    by (simp only: sint_sbintrunc') simp
  with assms show ?thesis by (simp add: signed_take_bit_int_eq_self)
qed

subsection \<open>Journal keys\<close>

text \<open>
  C5.  For every pair of 32-bit serials the key built by \<open>ixfrdb_key_make\<close> gives the
  pair back: \<open>ixfrdb_key_from\<close> returns \<open>from\<close> (the low half) and
  \<open>ixfrdb_key_to\<close> returns \<open>to\<close> (the high half).
\<close>

theorem ixfrdb_key_roundtrip:
  "ixfrdb_key_from (ixfrdb_key_make from to) = from \<and>
   ixfrdb_key_to (ixfrdb_key_make from to) = to \<and>
   drop_bit 32 (ixfrdb_key_make from to) = ucast to \<and>
   take_bit 32 (ixfrdb_key_make from to) = ucast from"
proof -
  have 1: "ixfrdb_key_from (ixfrdb_key_make from to) = from"
    unfolding ixfrdb_key_from_def ixfrdb_key_make_def low_mask
    by (rule bit_word_eqI) (auto simp: bit_simps dest: bit_imp_le_length)
  have 2: "ixfrdb_key_to (ixfrdb_key_make from to) = to"
    unfolding ixfrdb_key_to_def ixfrdb_key_make_def
    by (rule bit_word_eqI) (auto simp: bit_simps dest: bit_imp_le_length)
  have 3: "drop_bit 32 (ixfrdb_key_make from to) = ucast to"
    unfolding ixfrdb_key_make_def
    by (rule bit_word_eqI) (auto simp: bit_simps dest: bit_imp_le_length)
  have 4: "take_bit 32 (ixfrdb_key_make from to) = ucast from"
    unfolding ixfrdb_key_make_def
    by (rule bit_word_eqI) (auto simp: bit_simps dest: bit_imp_le_length)
  from 1 2 3 4 show ?thesis by simp
qed

theorem ixfrdb_key_roundtrip_witness:
  "ixfrdb_key_make 100 101 = 0x0000006500000064 \<and>
   ixfrdb_key_from (ixfrdb_key_make 100 101) = 100 \<and>
   ixfrdb_key_to (ixfrdb_key_make 100 101) = 101"
  using ixfrdb_key_roundtrip [of 100 101] by (simp add: ixfrdb_key_make_def)

text \<open>
  C4, as stated, fails: with the low half \<open>0xFFFFFFFF\<close> and the serial \<open>0\<close> the key
  part is above the serial, yet \<open>ixfrdb_key_from_cmp\<close> returns \<open>-1\<close>; the same
  holds for \<open>ixfrdb_key_to_cmp\<close> and the high half.
\<close>

theorem ixfrdb_key_cmp_sign_counterexample:
  "ixfrdb_key_from_cmp 0xFFFFFFFF (ucast (0 :: 32 word)) = - 1 \<and>
   (0 :: 32 word) < ixfrdb_key_from 0xFFFFFFFF \<and>
   ixfrdb_key_to_cmp 0xFFFFFFFF00000000 (ucast (0 :: 32 word)) = - 1 \<and>
   (0 :: 32 word) < ixfrdb_key_to 0xFFFFFFFF00000000"
  by (simp add: ixfrdb_key_from_cmp_def ixfrdb_key_from_def
      ixfrdb_key_to_cmp_def ixfrdb_key_to_def)

text \<open>
  C4, amended.  For every 64-bit key \<open>k\<close> and 32-bit serial \<open>s\<close> the comparators
  return the 32-bit difference of the key part and \<open>s\<close>, wrapped and read as two's
  complement.  The result is zero exactly when the key part equals \<open>s\<close>; and whenever
  the key part and \<open>s\<close> differ by less than \<open>2^31\<close> (difference in
  \<open>[-2^31, 2^31)\<close>) the result is the exact difference, so its sign orders them.
\<close>

theorem ixfrdb_key_cmp_wrapped:
  fixes k :: "64 word" and s :: "32 word"
  shows
  "ixfrdb_key_from_cmp k (ucast s) = sint (ixfrdb_key_from k - s) \<and>
   ixfrdb_key_to_cmp k (ucast s) = sint (ixfrdb_key_to k - s) \<and>
   (ixfrdb_key_from_cmp k (ucast s) = 0 \<longleftrightarrow> ixfrdb_key_from k = s) \<and>
   (ixfrdb_key_to_cmp k (ucast s) = 0 \<longleftrightarrow> ixfrdb_key_to k = s) \<and>
   (- (2 ^ 31) \<le> uint (ixfrdb_key_from k) - uint s \<and>
    uint (ixfrdb_key_from k) - uint s < 2 ^ 31 \<longrightarrow>
      ixfrdb_key_from_cmp k (ucast s) = uint (ixfrdb_key_from k) - uint s) \<and>
   (- (2 ^ 31) \<le> uint (ixfrdb_key_to k) - uint s \<and>
    uint (ixfrdb_key_to k) - uint s < 2 ^ 31 \<longrightarrow>
      ixfrdb_key_to_cmp k (ucast s) = uint (ixfrdb_key_to k) - uint s)"
proof -
  have f: "ixfrdb_key_from_cmp k (ucast s) = sint (ixfrdb_key_from k - s)"
    by (simp add: ixfrdb_key_from_cmp_def ucast_sub_down ucast_32_64_32)
  have t: "ixfrdb_key_to_cmp k (ucast s) = sint (ixfrdb_key_to k - s)"
    by (simp add: ixfrdb_key_to_cmp_def ucast_sub_down ucast_32_64_32)
  show ?thesis
    unfolding f t by (simp add: sint_sub_zero sint_sub_exact)
qed

theorem ixfrdb_key_cmp_wrapped_witness:
  "ixfrdb_key_from_cmp (ixfrdb_key_make 5 9) (ucast (7 :: 32 word)) = - 2 \<and>
   ixfrdb_key_to_cmp (ixfrdb_key_make 5 9) (ucast (7 :: 32 word)) = 2"
proof -
  have k: "ixfrdb_key_from (ixfrdb_key_make 5 9) = 5" "ixfrdb_key_to (ixfrdb_key_make 5 9) = 9"
    by (simp_all add: ixfrdb_key_make_def ixfrdb_key_from_def ixfrdb_key_to_def)
  show ?thesis
    using ixfrdb_key_cmp_wrapped [of "ixfrdb_key_make 5 9" 7] by (simp add: k)
qed

subsection \<open>SOA timers\<close>

text \<open>
  C10 does not hold of the code for large fields.  The function is documented to
  return the "Timer in miliseconds" and its last statement is commented "Convert to
  miliseconds", but the product \<open>ret * 1000\<close> is taken on \<open>uint32_t\<close> and wraps.
  A zone whose SOA EXPIRE is 4294968 seconds gets the timer 704 ms, not 4294968000 ms;
  an EXPIRE of 60 days (5184000 seconds) gets 889032704 ms, about 10.3 days.
\<close>

theorem zones_soa_expire_overflows:
  "zones_soa_expire (Some (example_zone 4294968 CONF_SERIAL_INCREMENT)) = Inr 704 \<and>
   uint (704 :: 32 word) \<noteq> 4294968 * 1000 \<and>
   zones_soa_expire (Some (example_zone 5184000 CONF_SERIAL_INCREMENT)) = Inr 889032704 \<and>
   uint (889032704 :: 32 word) \<noteq> 5184000 * 1000"
  by (simp add: zones_soa_expire_def zones_soa_timer_def example_zone_def)

text \<open>
  Where the code does convert: a zone without contents gives 0 rather than failing,
  and a field of at most 4294967 seconds gives exactly that many thousand milliseconds.
\<close>

lemma zones_soa_timer_in_range:
  "(contents z = None \<longrightarrow>
      zones_soa_timer (Some z) rr_func = Inr 0 \<and> zones_soa_refresh (Some z) = Inr 0 \<and>
      zones_soa_retry (Some z) = Inr 0 \<and> zones_soa_expire (Some z) = Inr 0) \<and>
   (contents z = Some zc \<and> unat (rr_func (apex_soa zc)) \<le> 4294967 \<longrightarrow>
      (\<exists>ms. zones_soa_timer (Some z) rr_func = Inr ms \<and>
            unat ms = unat (rr_func (apex_soa zc)) * 1000))"
  by (simp add: zones_soa_timer_def zones_soa_refresh_def zones_soa_retry_def
      zones_soa_expire_def unat_word_ariths)

subsection \<open>The next serial\<close>

text \<open>
  C3.  \<open>zones_next_serial\<close> chooses the new serial by the configured policy: under
  \<open>increment\<close> it is the old serial plus one modulo \<open>2^32\<close>, under \<open>unixtime\<close> it is
  the current time truncated to 32 bits.  Whatever the policy chose is returned; a
  warning is logged exactly when the new serial is not strictly greater than the old
  one under the serial comparison, and nothing is refused.
\<close>

theorem zones_next_serial_policy:
  "(conf_serial_policy z = CONF_SERIAL_INCREMENT \<longrightarrow>
      (\<exists>log. zones_next_serial lib (Some z) now
                = Inr (knot_zone_serial lib (contents z) + 1, log)) \<and>
      unat (knot_zone_serial lib (contents z) + 1)
        = (unat (knot_zone_serial lib (contents z)) + 1) mod 2 ^ 32) \<and>
   (conf_serial_policy z = CONF_SERIAL_UNIXTIME \<longrightarrow>
      (\<exists>log. zones_next_serial lib (Some z) now = Inr (word_of_int now, log)) \<and>
      uint (word_of_int now :: 32 word) = now mod 2 ^ 32) \<and>
   (\<forall>new log. zones_next_serial lib (Some z) now = Inr (new, log) \<longrightarrow>
      (if serial_strictly_greater lib new (knot_zone_serial lib (contents z))
       then log = []
       else log = [LogSerialWarning (knot_zone_serial lib (contents z)) new]))"
  by (auto simp: zones_next_serial_def serial_strictly_greater_def Let_def
      unat_word_ariths uint_word_of_int take_bit_eq_mod
      split: serial_policy.splits)

theorem zones_next_serial_policy_witness:
  "zones_next_serial libknot_model (Some (example_zone 3600 CONF_SERIAL_INCREMENT)) 50
     = Inr (101, []) \<and>
   zones_next_serial libknot_model (Some (example_zone 3600 CONF_SERIAL_UNIXTIME)) 50
     = Inr (50, [LogSerialWarning 100 50]) \<and>
   zones_next_serial libknot_model (Some (example_zone 3600 CONF_SERIAL_UNIXTIME))
       (2 ^ 32 + 101)
     = Inr (101, [])"
  using zones_next_serial_policy
      [where z = "example_zone 3600 CONF_SERIAL_INCREMENT" and lib = libknot_model
       and now = 50]
    zones_next_serial_policy
      [where z = "example_zone 3600 CONF_SERIAL_UNIXTIME" and lib = libknot_model
       and now = 50]
    zones_next_serial_policy
      [where z = "example_zone 3600 CONF_SERIAL_UNIXTIME" and lib = libknot_model
       and now = "2 ^ 32 + 101"]
  by (simp add: zones_next_serial_def example_zone_def libknot_model_def
      rfc1982_compare_def)

subsection \<open>Frame and trace lemmas for the journal and the flush\<close>

lemma env_next_frame:
  "env_next w = (r, w') \<Longrightarrow> events w' = events w \<and> zone w' = zone w \<and> clock w' = clock w"
  by (auto simp: env_next_def split: list.splits)

lemma upd_journal_frame:
  "events (upd_journal f w) = events w \<and> contents (zone (upd_journal f w)) = contents (zone w)
   \<and> zonefile_serial (zone (upd_journal f w)) = zonefile_serial (zone w)
   \<and> (ixfr_db (zone (upd_journal f w)) = None) = (ixfr_db (zone w) = None)"
  by (simp add: upd_journal_def)

lemma journal_retain_events: "journal_retain w = (r, w') \<Longrightarrow> events w' = events w"
  by (auto simp: journal_retain_def Let_def upd_journal_frame split: prod.splits if_splits dest!: env_next_frame)

lemma journal_release_events: "events (journal_release w) = events w"
  by (simp add: journal_release_def upd_journal_frame)

lemma journal_trans_begin_events: "journal_trans_begin w = (r, w') \<Longrightarrow> events w' = events w"
  by (auto simp: journal_trans_begin_def dest!: env_next_frame)

lemma journal_trans_rollback_events: "journal_trans_rollback w = (r, w') \<Longrightarrow> events w' = events w"
  by (auto simp: journal_trans_rollback_def Let_def upd_journal_frame split: prod.splits if_splits dest!: env_next_frame)

lemma zones_store_changeset_events: "zones_store_changeset c w = (r, w') \<Longrightarrow> events w' = events w"
  by (auto simp: zones_store_changeset_def zones_serialize_and_store_chgset_def journal_map_def
      journal_unmap_def Let_def upd_journal_frame split: prod.splits if_splits dest!: env_next_frame)

lemma store_walk_events: "store_walk cs w = (r, w') \<Longrightarrow> events w' = events w"
proof (induction cs arbitrary: w)
  case Nil then show ?case by simp
next
  case (Cons c cs)
  then show ?case
    by (auto simp: Let_def split: prod.splits if_splits dest!: zones_store_changeset_events)
qed

lemma zones_store_changesets_events: "zones_store_changesets src w = (r, w') \<Longrightarrow> events w' = events w"
  by (auto simp: zones_store_changesets_def split: option.splits if_splits dest!: store_walk_events)

lemma zones_store_changesets_begin_events: "zones_store_changesets_begin w = (t, w') \<Longrightarrow> events w' = events w"
  by (auto simp: zones_store_changesets_begin_def Let_def journal_release_events
      split: prod.splits if_splits dest!: journal_retain_events journal_trans_begin_events)

lemma zones_store_changesets_rollback_events:
  "zones_store_changesets_rollback t w = (r, w') \<Longrightarrow> events w' = events w"
  by (auto simp: zones_store_changesets_rollback_def Let_def journal_release_events
      split: prod.splits journal_ptr.splits dest!: journal_trans_rollback_events)

lemma try_store_trace:
  assumes "zones_store_chgsets_try_store c w = (ret, tr, w')"
  shows "events w' = events w @ [EvTryStore ret] \<and> (ret \<noteq> KNOT_EOK \<longrightarrow> tr = NULL)"
  using assms
  by (auto simp: zones_store_chgsets_try_store_def Let_def log_event_def
      split: prod.splits if_splits
      dest!: zones_store_changesets_begin_events zones_store_changesets_events
             zones_store_changesets_rollback_events)


lemma dump_trace:
  assumes "zones_dump_zone_text w = (ret, w')"
  shows "zone w' = zone w \<and> clock w' = clock w \<and>
         (if ret = KNOT_EOK then events w' = events w @ [EvZonefileWritten] else events w' = events w)"
  using assms
  by (auto simp: zones_dump_zone_text_def Let_def log_event_def
      split: prod.splits if_splits dest!: env_next_frame)



lemma sync_trace:
  assumes "zones_zonefile_sync zg j w = (ret, w')"
  shows "events w' = events w \<or> events w' = events w @ [EvZonefileWritten]"
  using assms
  by (auto simp: zones_zonefile_sync_def Let_def journal_walk_def upd_journal_def
      split: option.splits prod.splits if_splits
      dest!: dump_trace env_next_frame)

lemma sync_from_ev_trace:
  assumes "zones_zonefile_sync_from_ev w = (ret, w')"
  shows "events w' = events w @ [EvSyncFromEv ret] \<or>
         events w' = events w @ [EvZonefileWritten, EvSyncFromEv ret]"
  using assms
  by (auto simp: zones_zonefile_sync_from_ev_def Let_def log_event_def journal_release_events
      split: prod.splits if_splits
      dest!: journal_retain_events sync_trace)

subsection \<open>Storing changesets: empty envelopes\<close>

text \<open>
  C9, as stated, fails for the \<open>NULL\<close> envelope when assertions are compiled in:
  \<open>assert(chgsets != NULL)\<close> stops the program before
  \<open>zones_changesets_empty\<close> is asked, so \<open>KNOT_EINVAL\<close> is not returned.
\<close>

theorem null_changesets_assert_counterexample:
  "zones_changesets_empty None \<and>
   zones_store_changesets_begin_and_store False None NULL (example_world [] 100 [])
     = Inl AssertFailed"
  by (simp add: zones_changesets_empty_def zones_store_changesets_begin_and_store_def)

text \<open>
  C9, amended.  For every envelope that is not \<open>NULL\<close> and is empty (it contains no
  changeset, or its first changeset is empty), \<open>zones_store_changesets_begin_and_store\<close>
  returns \<open>KNOT_EINVAL\<close> and leaves the world (the journal, the trace, the
  environment) and \<open>*transaction\<close> as they were: no journal transaction is begun and
  nothing is written.  A \<open>NULL\<close> envelope is stopped by the assertion; compiled with
  \<open>NDEBUG\<close> the function returns \<open>KNOT_EINVAL\<close> for it in the same way.  In no
  case does an empty envelope reach the journal.
\<close>

theorem empty_changesets_not_stored:
  assumes "zones_changesets_empty chgsets"
  shows "zones_store_changesets_begin_and_store ndebug chgsets tr w =
           (if chgsets = None \<and> \<not> ndebug then Inl AssertFailed
            else Inr (KNOT_EINVAL, tr, w))"
  using assms by (simp add: zones_store_changesets_begin_and_store_def)

theorem empty_changesets_not_stored_witness:
  "zones_changesets_empty (Some \<lparr> sets = [] \<rparr>) \<and>
   zones_store_changesets_begin_and_store False (Some \<lparr> sets = [] \<rparr>) NULL
       (example_world [] 100 [KNOT_EBUSY])
     = Inr (KNOT_EINVAL, NULL, example_world [] 100 [KNOT_EBUSY]) \<and>
   zones_changesets_empty
       (Some \<lparr> sets = [\<lparr> serial_from = 100, serial_to = 101, remove = [], add = [] \<rparr>] \<rparr>) \<and>
   zones_store_changesets_begin_and_store False
       (Some \<lparr> sets = [\<lparr> serial_from = 100, serial_to = 101, remove = [], add = [] \<rparr>] \<rparr>)
       IXFR_DB (example_world [] 100 [])
     = Inr (KNOT_EINVAL, IXFR_DB, example_world [] 100 []) \<and>
   zones_store_changesets_begin_and_store True None NULL (example_world [] 100 [])
     = Inr (KNOT_EINVAL, NULL, example_world [] 100 [])"
proof -
  have h1: "zones_changesets_empty (Some \<lparr> sets = [] \<rparr>)"
    by (simp add: zones_changesets_empty_def)
  have h2: "zones_changesets_empty
       (Some \<lparr> sets = [\<lparr> serial_from = 100, serial_to = 101, remove = [], add = [] \<rparr>] \<rparr>)"
    by (simp add: zones_changesets_empty_def knot_changeset_is_empty_def)
  have h3: "zones_changesets_empty None"
    by (simp add: zones_changesets_empty_def)
  show ?thesis
    using h1 h2
      empty_changesets_not_stored [OF h1, of False NULL "example_world [] 100 [KNOT_EBUSY]"]
      empty_changesets_not_stored [OF h2, of False IXFR_DB "example_world [] 100 []"]
      empty_changesets_not_stored [OF h3, of True NULL "example_world [] 100 []"]
    by simp
qed

subsection \<open>Storing changesets: a full journal\<close>

text \<open>
  C2, as stated, fails when the flush itself fails: the store is then not retried.
  First run: the journal is full (\<open>journal_map\<close> returns \<open>KNOT_EBUSY\<close>) and the
  temporary zonefile cannot be created; the function returns \<open>KNOT_EWRITABLE\<close> after
  one store attempt.  Second run: the journal is full and the zonefile is already at the
  zone's serial; the flush returns \<open>KNOT_ERANGE\<close>, which is returned, again after one
  store attempt.
\<close>

theorem busy_flush_fails_no_retry_counterexample:
  "(case zones_store_changesets_begin_and_store False (Some example_chgsets) NULL
          (example_world [\<lparr>node_id = 5, flags = 6\<rparr>] 99
             [KNOT_EOK, KNOT_EOK, KNOT_EBUSY, KNOT_EOK, KNOT_EOK, KNOT_ERROR]) of
      Inl _ \<Rightarrow> False
    | Inr (ret, tr, w') \<Rightarrow>
        ret = KNOT_EWRITABLE \<and>
        events w' = [EvTryStore KNOT_EBUSY, EvSyncFromEv KNOT_EWRITABLE]) \<and>
   (case zones_store_changesets_begin_and_store False (Some example_chgsets) NULL
          (example_world [\<lparr>node_id = 5, flags = 6\<rparr>] 100
             [KNOT_EOK, KNOT_EOK, KNOT_EBUSY]) of
      Inl _ \<Rightarrow> False
    | Inr (ret, tr, w') \<Rightarrow>
        ret = KNOT_ERANGE \<and>
        events w' = [EvTryStore KNOT_EBUSY, EvSyncFromEv KNOT_ERANGE])"
  by (simp add: zones_store_changesets_begin_and_store_def zones_changesets_empty_def
      knot_changeset_is_empty_def zones_store_chgsets_try_store_def
      zones_store_changesets_begin_def zones_store_changesets_def zones_store_changeset_def
      zones_store_changesets_rollback_def journal_map_def journal_retain_def
      journal_release_def journal_trans_begin_def journal_trans_rollback_def
      zones_zonefile_sync_from_ev_def zones_zonefile_sync_def zones_dump_zone_text_def
      journal_is_used_def env_next_def log_event_def upd_journal_def
      example_world_def example_zone_def example_chgsets_def Let_def)

text \<open>
  C2, amended.  For a non-empty envelope \<open>zones_store_changesets_begin_and_store\<close>
  always returns, and what it did is one of three runs:
  \<^item> one store attempt whose result is not \<open>KNOT_EBUSY\<close>: that result (success or
    error) is returned, with no flush and no zonefile write;
  \<^item> a store attempt that returned \<open>KNOT_EBUSY\<close>, then one flush that failed: the
    error of the flush is returned and the store is not retried;
  \<^item> a store attempt that returned \<open>KNOT_EBUSY\<close>, then one flush that succeeded,
    then exactly one more store attempt: its result is returned, with no further flush
    or retry.

  So the flush is called only after \<open>KNOT_EBUSY\<close> and at most once, the store is
  retried only after a successful flush and at most once, and the zonefile is written
  at most once.
\<close>

theorem begin_and_store_flush_and_retry_once:
  assumes "\<not> zones_changesets_empty (Some c)"
  shows "\<exists>ret tr w' new.
           zones_store_changesets_begin_and_store ndebug (Some c) tr0 w = Inr (ret, tr, w') \<and>
           events w' = events w @ new \<and>
           count_list new EvZonefileWritten \<le> 1 \<and>
           (filter is_call_mark new = [EvTryStore ret] \<and> ret \<noteq> KNOT_EBUSY \<and>
              count_list new EvZonefileWritten = 0
            \<or> filter is_call_mark new = [EvTryStore KNOT_EBUSY, EvSyncFromEv ret] \<and>
              ret \<noteq> KNOT_EOK
            \<or> filter is_call_mark new =
                [EvTryStore KNOT_EBUSY, EvSyncFromEv KNOT_EOK, EvTryStore ret])"
proof -
  obtain r1 t1 w1 where t1: "zones_store_chgsets_try_store c w = (r1, t1, w1)"
    by (metis prod_cases3)
  note e1 = try_store_trace [OF t1]
  show ?thesis
  proof (cases "r1 = KNOT_EBUSY")
    case False
    with assms t1 e1 show ?thesis
      by (simp add: zones_store_changesets_begin_and_store_def is_call_mark_def)
  next
    case True
    with e1 have n1: "t1 = NULL" by simp
    obtain r2 w2 where s2: "zones_zonefile_sync_from_ev w1 = (r2, w2)" by fastforce
    note e2 = sync_from_ev_trace [OF s2]
    show ?thesis
    proof (cases "r2 = KNOT_EOK")
      case False
      with assms t1 e1 True n1 s2 e2 show ?thesis
        by (auto simp add: zones_store_changesets_begin_and_store_def is_call_mark_def)
    next
      case ok: True
      obtain r3 t3 w3 where t3: "zones_store_chgsets_try_store c w2 = (r3, t3, w3)"
        by (metis prod_cases3)
      note e3 = try_store_trace [OF t3]
      from assms t1 e1 True n1 s2 e2 ok t3 e3 show ?thesis
        by (auto simp add: zones_store_changesets_begin_and_store_def is_call_mark_def)
    qed
  qed
qed

theorem begin_and_store_flush_and_retry_once_witness:
  "\<not> zones_changesets_empty (Some example_chgsets) \<and>
   (case zones_store_changesets_begin_and_store False (Some example_chgsets) NULL
          (example_world [\<lparr>node_id = 5, flags = 6\<rparr>] 99 [KNOT_EOK, KNOT_EOK, KNOT_EBUSY]) of
      Inl _ \<Rightarrow> False
    | Inr (ret, tr, w') \<Rightarrow>
        ret = KNOT_EOK \<and> tr = IXFR_DB \<and>
        events w' = [EvTryStore KNOT_EBUSY, EvZonefileWritten,
                     EvSyncFromEv KNOT_EOK, EvTryStore KNOT_EOK] \<and>
        zonefile_serial (zone w') = 100 \<and>
        map_option nodes (ixfr_db (zone w'))
          = Some [\<lparr>node_id = 5, flags = JOURNAL_VALID\<rparr>,
                  \<lparr>node_id = ixfrdb_key_make 100 101,
                    flags = JOURNAL_VALID OR JOURNAL_DIRTY OR JOURNAL_TRANS\<rparr>])"
proof -
  have h: "\<not> zones_changesets_empty (Some example_chgsets)"
    by (simp add: zones_changesets_empty_def knot_changeset_is_empty_def example_chgsets_def)
  show ?thesis
    using h begin_and_store_flush_and_retry_once [OF h, of False NULL
        "example_world [\<lparr>node_id = 5, flags = 6\<rparr>] 99 [KNOT_EOK, KNOT_EOK, KNOT_EBUSY]"]
    by (simp add: zones_store_changesets_begin_and_store_def zones_changesets_empty_def
      knot_changeset_is_empty_def zones_store_chgsets_try_store_def
      zones_store_changesets_begin_def zones_store_changesets_def zones_store_changeset_def
      zones_serialize_and_store_chgset_def journal_unmap_def
      zones_store_changesets_rollback_def journal_map_def journal_retain_def
      journal_release_def journal_trans_begin_def journal_trans_rollback_def
      zones_zonefile_sync_from_ev_def zones_zonefile_sync_def zones_dump_zone_text_def
      journal_walk_def zones_ixfrdb_sync_apply_def
      journal_is_used_def env_next_def log_event_def upd_journal_def
      JOURNAL_VALID_def JOURNAL_DIRTY_def JOURNAL_TRANS_def ixfrdb_key_make_def
      example_world_def example_zone_def example_chgsets_def Let_def)
qed

subsection \<open>Flushing the zonefile\<close>



subsection \<open>Processing an UPDATE\<close>

text \<open>
  C1 does not hold of the code.  First run: signing is off, the changesets are stored
  and the transaction is committed, and then the contents switch fails.  The function
  returns \<open>KNOT_ERROR\<close>; the content update is rolled back and the old snapshot
  (serial 100) stays installed, but the journal keeps the committed entry
  \<open>100 \<rightarrow> 101\<close>, valid and visible.  Second run: signing is on and applying the
  DNSSEC changeset fails after the store.  The journal transaction is rolled back, but
  \<open>xfrin_rollback_update\<close> is not called: the content update is not rolled back with
  it, as it is on the neighbouring path (a failure of
  \<open>knot_zone_contents_adjust_nsec3_pointers\<close>), shown in the third run.
\<close>

theorem update_switch_failure_keeps_committed_entry:
  "(case zones_process_update_auth False example_chgsets None example_new_contents 0
          (example_world [] 100
             [KNOT_EOK, KNOT_EOK, KNOT_EOK, KNOT_EOK, KNOT_EOK, KNOT_EOK, KNOT_EOK,
              KNOT_ERROR]) of
      Inl _ \<Rightarrow> False
    | Inr (ret, w') \<Rightarrow>
        ret = KNOT_ERROR \<and>
        contents (zone w') = contents (zone (example_world [] 100 [])) \<and>
        map_option nodes (ixfr_db (zone w'))
          = Some [\<lparr>node_id = ixfrdb_key_make 100 101,
                    flags = JOURNAL_VALID OR JOURNAL_DIRTY\<rparr>] \<and>
        events w' = [EvTryStore KNOT_EOK, EvRollbackUpdate]) \<and>
   journal_visible \<lparr>node_id = ixfrdb_key_make 100 101,
                     flags = JOURNAL_VALID OR JOURNAL_DIRTY\<rparr> \<and>
   (case zones_process_update_auth False example_chgsets (Some example_sec_chs)
          example_new_contents 0
          (example_world [] 100
             [KNOT_EOK, KNOT_EOK, KNOT_EOK, KNOT_EOK, KNOT_EOK, KNOT_EOK, KNOT_ERROR]) of
      Inl _ \<Rightarrow> False
    | Inr (ret, w') \<Rightarrow>
        ret = KNOT_ERROR \<and>
        contents (zone w') = contents (zone (example_world [] 100 [])) \<and>
        map_option nodes (ixfr_db (zone w')) = Some [] \<and>
        events w' = [EvTryStore KNOT_EOK]) \<and>
   (case zones_process_update_auth False example_chgsets None example_new_contents 0
          (example_world [] 100
             [KNOT_EOK, KNOT_EOK, KNOT_EOK, KNOT_EOK, KNOT_EOK, KNOT_ERROR]) of
      Inl _ \<Rightarrow> False
    | Inr (ret, w') \<Rightarrow>
        ret = KNOT_ERROR \<and>
        contents (zone w') = contents (zone (example_world [] 100 [])) \<and>
        map_option nodes (ixfr_db (zone w')) = Some [] \<and>
        events w' = [EvTryStore KNOT_EOK, EvRollbackUpdate])"
  by (simp add: zones_process_update_auth_def zones_merge_and_store_changesets_def
      zones_store_changesets_begin_and_store_def zones_changesets_empty_def
      knot_changeset_is_empty_def knot_changesets_get_last_def knot_changeset_merge_def
      set_last_def zones_store_chgsets_try_store_def zones_store_changesets_begin_def
      zones_store_changesets_def zones_store_changeset_def
      zones_serialize_and_store_chgset_def journal_map_def journal_unmap_def
      journal_retain_def journal_release_def journal_trans_begin_def
      journal_trans_commit_def journal_trans_rollback_def
      zones_store_changesets_commit_def zones_store_changesets_rollback_def
      replan_zone_sign_after_ddns_def xfrin_switch_zone_def xfrin_rollback_update_def
      journal_visible_def env_next_def log_event_def upd_journal_def
      JOURNAL_VALID_def JOURNAL_DIRTY_def JOURNAL_TRANS_def ixfrdb_key_make_def
      example_world_def example_zone_def example_chgsets_def example_sec_chs_def
      example_new_contents_def Let_def)

subsection \<open>CNAME chains\<close>

lemma chain_after_None: "chain_after zn n None = None"
  by (cases n) simp_all

lemma chain_after_Suc_Some:
  "chain_after zn (Suc n) (Some x) = chain_after zn n (cname_step zn x)"
  by simp

lemma chain_after_mono: "chain_after zn n d = None \<Longrightarrow> chain_after zn (Suc n) d = None"
proof (induction n arbitrary: d)
  case 0
  then show ?case by simp
next
  case (Suc n)
  show ?case
  proof (cases d)
    case None
    then show ?thesis by simp
  next
    case (Some x)
    with Suc.prems have "chain_after zn n (cname_step zn x) = None" by simp
    from Suc.IH [OF this] Some show ?thesis by simp
  qed
qed

declare cname_loop.simps [simp del]

lemma cname_loop_bound:
  "i \<le> 15 \<Longrightarrow> (cname_loop zn i d \<ge> 15) = (chain_after zn (14 - i) d \<noteq> None \<or> i = 15)"
proof (induction zn i d rule: cname_loop.induct)
  case (1 zn i d)
  show ?case
  proof (cases "i < 15 \<and> d \<noteq> None")
    case True
    then obtain x where x: "d = Some x" by auto
    from True have step: "cname_loop zn i d = cname_loop zn (i + 1) (cname_step zn x)"
      by (subst cname_loop.simps) (simp add: x MAX_CNAME_CYCLE_DEPTH_def)
    from True have ih: "(cname_loop zn (i + 1) (cname_step zn x) \<ge> 15)
        = (chain_after zn (14 - (i + 1)) (cname_step zn x) \<noteq> None \<or> i + 1 = 15)"
      using "1.IH" x by (simp add: MAX_CNAME_CYCLE_DEPTH_def)
    show ?thesis
    proof (cases "i = 14")
      case True
      with step ih x show ?thesis by simp
    next
      case False
      with True have "14 - i = Suc (14 - (i + 1))" by arith
      with step ih x False True show ?thesis
        by (simp del: chain_after.simps add: chain_after_Suc_Some)
    qed
  next
    case False
    then have "cname_loop zn i d = i"
      by (subst cname_loop.simps) (auto simp add: MAX_CNAME_CYCLE_DEPTH_def)
    with False "1.prems" show ?thesis
      by (auto simp: chain_after_None)
  qed
qed

text \<open>
  C7, as stated, fails at the bound itself.  In the zone \<open>chain_zone 15\<close> the chain
  from the name 1 runs through 14 CNAMEs, in the normal tree and then in the NSEC3
  tree, to the name 15, which is not in the zone: the 15th lookup ends the chain, so the
  chain terminates within 15 lookups.  The loop has then counted \<open>i = 15\<close>, and the
  function reports a cycle.
\<close>

theorem cname_chain_at_bound_counterexample:
  "chain_after (chain_zone 15) 15 (cname_name chain_head) = None \<and>
   chain_after (chain_zone 15) 14 (cname_name chain_head) = Some 15 \<and>
   check_cname_cycles_in_zone (chain_zone 15) chain_head = Inr (- 1)"
  by (simp add: check_cname_cycles_in_zone_def cname_loop.simps chain_zone_def
      chain_head_def cname_node_def cname_step_def dnslib_zone_get_node_def
      dnslib_zone_get_nsec3_node_def dnslib_node_rrset_def DNSLIB_RRTYPE_CNAME_def
      MAX_CNAME_CYCLE_DEPTH_def eval_nat_numeral)

text \<open>
  C7, amended.  For a CNAME RRSet (whose first RDATA names a target),
  \<open>check_cname_cycles_in_zone\<close> follows the chain across the normal tree and the
  NSEC3 tree for at most 15 lookups.  It returns 0 exactly for the chains that
  terminate (a lookup finds no node in either tree, or a node without CNAME) within
  14 lookups, that is, before the 15th; it returns \<open>-1\<close> (a cycle) for every other
  chain: for every chain that does not terminate within 15 lookups, and also for a
  chain that the 15th lookup ends.
\<close>

theorem check_cname_cycles_bound:
  assumes "cname_name rrset \<noteq> None"
  shows "check_cname_cycles_in_zone zn rrset =
           Inr (if chain_after zn 14 (cname_name rrset) = None then 0 else - 1) \<and>
         (chain_after zn 15 (cname_name rrset) \<noteq> None \<longrightarrow>
            check_cname_cycles_in_zone zn rrset = Inr (- 1))"
proof -
  have main: "check_cname_cycles_in_zone zn rrset =
           Inr (if chain_after zn 14 (cname_name rrset) = None then 0 else - 1)"
    using assms cname_loop_bound [of 0 zn "cname_name rrset"]
    by (auto simp: check_cname_cycles_in_zone_def MAX_CNAME_CYCLE_DEPTH_def Let_def)
  have "chain_after zn 14 (cname_name rrset) = None \<Longrightarrow>
        chain_after zn 15 (cname_name rrset) = None"
    using chain_after_mono [of zn 14 "cname_name rrset"] by (simp add: eval_nat_numeral)
  with main show ?thesis by auto
qed

theorem check_cname_cycles_bound_witness:
  "cname_name chain_head \<noteq> None \<and>
   chain_after (chain_zone 14) 14 (cname_name chain_head) = None \<and>
   check_cname_cycles_in_zone (chain_zone 14) chain_head = Inr 0 \<and>
   chain_after (chain_zone 20) 15 (cname_name chain_head) = Some 16 \<and>
   check_cname_cycles_in_zone (chain_zone 20) chain_head = Inr (- 1)"
proof -
  have h: "cname_name chain_head \<noteq> None" by (simp add: chain_head_def)
  have a: "chain_after (chain_zone 14) 14 (cname_name chain_head) = None"
    by (simp add: chain_zone_def chain_head_def cname_node_def cname_step_def
        dnslib_zone_get_node_def dnslib_zone_get_nsec3_node_def dnslib_node_rrset_def
        DNSLIB_RRTYPE_CNAME_def eval_nat_numeral)
  have b: "chain_after (chain_zone 20) 15 (cname_name chain_head) = Some 16"
    by (simp add: chain_zone_def chain_head_def cname_node_def cname_step_def
        dnslib_zone_get_node_def dnslib_zone_get_nsec3_node_def dnslib_node_rrset_def
        DNSLIB_RRTYPE_CNAME_def eval_nat_numeral)
  from h a b check_cname_cycles_bound [OF h, of "chain_zone 14", THEN conjunct1]
    check_cname_cycles_bound [OF h, of "chain_zone 20", THEN conjunct2]
  show ?thesis by simp
qed

subsection \<open>The counters of the binary dump\<close>

lemma fold_node_dump:
  "fold dnslib_node_dump_binary ns st =
     st\<lparr> node_count := node_count st + of_nat (length ns),
         dzone := (dzone st)\<lparr>zone_node_count :=
                    zone_node_count (dzone st)
                      + of_nat (length (filter (\<lambda>n. \<not> non_auth n) ns))\<rparr>,
         dfile := (dfile st)\<lparr>written := written (dfile st) @ ns\<rparr> \<rparr>"
proof (induction ns arbitrary: st)
  case Nil
  then show ?case by simp
next
  case (Cons n ns)
  show ?case
    by (simp add: Cons.IH) (simp add: dnslib_node_dump_binary_def Let_def algebra_simps)
qed

lemma sem_check_walk_off: "sem_check_walk 0 zn ns = None"
  by (induction ns) (simp_all add: dnslib_zone_save_enclosers_in_tree_def)

text \<open>
  What one call without semantic checks writes into the header, for any value of the
  global counter at the call: the count of normal nodes is off by that value.
\<close>

lemma zdump_counts:
  "dnslib_zdump_binary True 0 nc0 zn =
     Inr (0, of_nat (length (nsec3_tree zn)),
      zn\<lparr>zone_node_count :=
           of_nat (length (filter (\<lambda>n. \<not> non_auth n) (tree zn)))
             + of_nat (length (filter (\<lambda>n. \<not> non_auth n) (nsec3_tree zn)))\<rparr>,
      Some \<lparr> hdr_normal_count = nc0 + of_nat (length (tree zn)),
             hdr_nsec3_count = of_nat (length (nsec3_tree zn)),
             hdr_auth_count =
               of_nat (length (filter (\<lambda>n. \<not> non_auth n) (tree zn)))
                 + of_nat (length (filter (\<lambda>n. \<not> non_auth n) (nsec3_tree zn))),
             written = tree zn @ nsec3_tree zn \<rparr>)"
  by (simp add: dnslib_zdump_binary_def zone_save_enclosers_sem_check_def
      sem_check_walk_off dnslib_zone_tree_apply_inorder_def
      dnslib_zone_nsec3_apply_inorder_def fold_node_dump Let_def)

text \<open>
  With semantic checks on, the pass before the dump stops at the first node of the
  normal tree that has no CNAME RRSet.
\<close>

lemma zdump_sem_check_null_deref:
  "dnslib_zdump_binary True 1 0 small_zone = Inl NullDeref"
  by (simp add: dnslib_zdump_binary_def zone_save_enclosers_sem_check_def
      dnslib_zone_save_enclosers_in_tree_def dnslib_node_rrset_def
      DNSLIB_RRTYPE_CNAME_def small_zone_def plain_node_def)

text \<open>
  C8 does not hold of the code for a repeated dump.  \<open>small_zone\<close> has two normal
  nodes and one NSEC3 node.  The first dump of a process patches the counts
  \<open>(2, 1, 2)\<close> into the header.  The global \<open>node_count\<close> is then 1, the number of
  NSEC3 nodes, and the second dump starts counting the normal nodes from there: it
  writes the same two normal nodes and patches the count 3.
\<close>

theorem repeated_dump_normal_count_wrong:
  "dump_twice small_zone =
     Inr (Some \<lparr> hdr_normal_count = 2, hdr_nsec3_count = 1, hdr_auth_count = 2,
             written = [plain_node 1 False, plain_node 2 True, plain_node 3 False] \<rparr>,
      Some \<lparr> hdr_normal_count = 3, hdr_nsec3_count = 1, hdr_auth_count = 2,
             written = [plain_node 1 False, plain_node 2 True, plain_node 3 False] \<rparr>) \<and>
   length (tree small_zone) = 2"
  by (simp add: dump_twice_def zdump_counts small_zone_def plain_node_def)

end
